theory Spec2Isabelle
  imports Complex_Main "HOL-Library.AList" "HOL-Library.Signed_Division"
begin

section \<open>Conventions of the embedding\<close>

text \<open>
  The program is an Angular application: component classes whose fields are signals
  (read with \<open>f()\<close>, written with \<open>f.set\<close> and \<open>f.update\<close>) and plain private
  fields. A component is a \<^theory_text>\<open>record\<close> of its fields, a method is a function from
  the record to the updated record, and a signal write is a record update (signals are
  read back synchronously, so a write is visible to the next statement).

  A JavaScript \<open>number\<close> that holds a time, a gain, a frequency or an angle is a \<^typ>\<open>real\<close>:
  the arithmetic is exact, the rounding of IEEE doubles is outside the model.
  A \<open>number\<close> that the code uses as a counter or an index is an \<^typ>\<open>int\<close>, and the
  remainder operator \<open>%\<close> is \<^const>\<open>signed_modulo\<close> (the result takes the sign of the
  dividend, as in JavaScript).

  A JavaScript \<open>Map\<close> is an association list in insertion order: \<open>Map.set\<close> is
  \<^const>\<open>AList.update\<close> (an existing key keeps its place, a new key goes last),
  \<open>Map.delete\<close> is \<^const>\<open>AList.delete\<close> and \<open>Map.get\<close> is \<^const>\<open>map_of\<close>.
\<close>

datatype error = TypeError

section \<open>The drum machine: \<open>samples.ts\<close> and \<open>drum-machine.component.ts\<close>\<close>

record Pad =
  pad_name :: string
  pad_key :: string
  sampleKey :: string

record Kit =
  kit_name :: string
  kit_pads :: "Pad list"

definition mkPad :: "string \<Rightarrow> string \<Rightarrow> string \<Rightarrow> Pad" where
  "mkPad n k sk = \<lparr>pad_name = n, pad_key = k, sampleKey = sk\<rparr>"

text \<open>The exported constant \<open>kits\<close> of \<open>samples.ts\<close>: one kit of sixteen pads.\<close>

definition kits :: "Kit list" where
  "kits =
    [\<lparr>kit_name = ''808 Classic'',
      kit_pads =
       [mkPad ''Kick'' ''1'' ''kick808'',
        mkPad ''Kick 2'' ''2'' ''kick909'',
        mkPad ''Snare'' ''3'' ''snare808'',
        mkPad ''Clap'' ''4'' ''clap808'',
        mkPad ''Snare 2'' ''q'' ''snare909'',
        mkPad ''Perc 1'' ''w'' ''perc1'',
        mkPad ''CHH'' ''e'' ''hihat808_closed'',
        mkPad ''Perc 2'' ''r'' ''perc2'',
        mkPad ''OHH'' ''a'' ''hihat808_open'',
        mkPad ''Perc 3'' ''s'' ''perc3'',
        mkPad ''Tom L'' ''d'' ''tom_low'',
        mkPad ''Perc 4'' ''f'' ''perc4'',
        mkPad ''Tom M'' ''z'' ''tom_mid'',
        mkPad ''Tom H'' ''x'' ''tom_high'',
        mkPad ''Crash'' ''c'' ''crash'',
        mkPad ''Ride'' ''v'' ''ride'']\<rparr>]"

type_synonym Sequence = "(string \<times> bool list) list"

text \<open>
  The fields of \<open>DrumMachineComponent\<close> that its sequencer and its pad assignment read
  or write. \<open>timerId\<close> holds the pending \<open>window.setTimeout\<close>: the delay in
  milliseconds that was asked for, \<open>None\<close> when no timeout is pending. The signal
  \<open>isPlaying\<close> is the field \<open>dm_isPlaying\<close> (the decks have an \<open>isPlaying\<close> of
  their own).
\<close>

record DrumMachine =
  activeKit :: Kit
  pads :: "Pad list"
  bpm :: int
  dm_isPlaying :: bool
  currentStep :: int
  sequence :: Sequence
  showSampleLibrary :: bool
  selectedPadIndex :: "nat option"
  customSampleData :: "(string \<times> string) list"
  timerId :: "real option"

text \<open>\<open>createEmptySequence\<close>: a fresh map, one \<open>Array(16).fill(false)\<close> per pad.\<close>

definition createEmptySequence :: "DrumMachine \<Rightarrow> Sequence" where
  "createEmptySequence s =
     foldl (\<lambda>newSequence pad. AList.update (sampleKey pad) (replicate 16 False) newSequence)
       [] (pads s)"

text \<open>The state after the field initialisers and the constructor have run.\<close>

definition initialDrumMachine :: DrumMachine where
  "initialDrumMachine =
     (let s = \<lparr>activeKit = kits ! 0, pads = kit_pads (kits ! 0), bpm = 120,
                dm_isPlaying = False, currentStep = - 1, sequence = [],
                showSampleLibrary = False, selectedPadIndex = None,
                customSampleData = [], timerId = None\<rparr>
      in s\<lparr>sequence := createEmptySequence s\<rparr>)"

text \<open>
  \<open>playStep\<close>: the indices of the pads that sound at a step, in pad order. A negative
  step plays nothing; \<open>padSequence?.[step]\<close> is falsy for a missing key and for an
  index past the end of the array.
\<close>

definition playStep :: "int \<Rightarrow> DrumMachine \<Rightarrow> nat list" where
  "playStep step s =
     (if step < 0 then []
      else filter
        (\<lambda>padIndex.
           case map_of (sequence s) (sampleKey (pads s ! padIndex)) of
             None \<Rightarrow> False
           | Some padSequence \<Rightarrow> nat step < length padSequence \<and> padSequence ! nat step)
        [0 ..< length (pads s)])"

text \<open>
  \<open>scheduleNextStep\<close>: nothing when stopped; otherwise the step is played (sound and
  pad lights, which are not sequencer fields) and a timeout of \<open>secondsPerStep * 1000\<close>
  milliseconds is set.
\<close>

definition scheduleNextStep :: "DrumMachine \<Rightarrow> DrumMachine" where
  "scheduleNextStep s =
     (if \<not> dm_isPlaying s then s
      else
        let secondsPerBeat = 60 / real_of_int (bpm s);
            secondsPerStep = secondsPerBeat / 4
        in s\<lparr>timerId := Some (secondsPerStep * 1000)\<rparr>)"

text \<open>
  The callback of that timeout, run by the browser when the delay has passed:
  \<open>currentStep.update(s => (s + 1) % 16)\<close>, then \<open>scheduleNextStep()\<close>.
\<close>

definition timeoutCallback :: "DrumMachine \<Rightarrow> DrumMachine" where
  "timeoutCallback s = scheduleNextStep (s\<lparr>currentStep := (currentStep s + 1) smod 16\<rparr>)"

definition start :: "DrumMachine \<Rightarrow> DrumMachine" where
  "start s =
     (if dm_isPlaying s then s
      else
        let s1 = s\<lparr>dm_isPlaying := True\<rparr>;
            s2 = s1\<lparr>currentStep := (if currentStep s1 = - 1 then 0 else currentStep s1)\<rparr>
        in scheduleNextStep s2)"

definition stop :: "DrumMachine \<Rightarrow> DrumMachine" where
  "stop s = s\<lparr>dm_isPlaying := False, timerId := None\<rparr>"

definition resetSequencer :: "DrumMachine \<Rightarrow> DrumMachine" where
  "resetSequencer s = (stop s)\<lparr>currentStep := - 1\<rparr>"

text \<open>\<open>onBpmChange\<close>: the argument is the result of \<open>parseInt\<close>, \<open>None\<close> for \<open>NaN\<close>.\<close>

definition onBpmChange :: "int option \<Rightarrow> DrumMachine \<Rightarrow> DrumMachine" where
  "onBpmChange v s =
     (case v of
        None \<Rightarrow> s
      | Some n \<Rightarrow> if n > 0 then s\<lparr>bpm := n\<rparr> else s)"

text \<open>
  \<open>toggleStep\<close>: flips one cell of the pad's array. Past the end of the array the
  assignment extends it: the cell becomes \<open>true\<close> (the negation of \<open>undefined\<close>)
  and the cells skipped stay empty, which reads as \<open>false\<close>.
\<close>

definition toggleStep :: "nat \<Rightarrow> nat \<Rightarrow> DrumMachine \<Rightarrow> DrumMachine" where
  "toggleStep padIndex stepIndex s =
     (if padIndex \<ge> length (pads s) then s
      else
        let k = sampleKey (pads s ! padIndex)
        in case map_of (sequence s) k of
             None \<Rightarrow> s
           | Some padSequence \<Rightarrow>
               s\<lparr>sequence :=
                   AList.update k
                     (if stepIndex < length padSequence
                      then padSequence[stepIndex := \<not> padSequence ! stepIndex]
                      else padSequence @ replicate (stepIndex - length padSequence) False @ [True])
                     (sequence s)\<rparr>)"

text \<open>
  \<open>changeKit\<close>: an unknown name changes nothing. The samples of the new pads are
  loaded afterwards, asynchronously, into the buffer cache, which the sequence does not
  depend on.
\<close>

definition changeKit :: "string \<Rightarrow> DrumMachine \<Rightarrow> DrumMachine" where
  "changeKit kitName s =
     (case find (\<lambda>k. kit_name k = kitName) kits of
        None \<Rightarrow> s
      | Some kit \<Rightarrow>
          let s1 = stop s;
              s2 = s1\<lparr>activeKit := kit\<rparr>;
              s3 = s2\<lparr>pads := kit_pads kit\<rparr>
          in s3\<lparr>sequence := createEmptySequence s3\<rparr>)"

definition openSampleLibrary :: "nat \<Rightarrow> DrumMachine \<Rightarrow> DrumMachine" where
  "openSampleLibrary padIndex s = s\<lparr>selectedPadIndex := Some padIndex, showSampleLibrary := True\<rparr>"

definition closeSampleLibrary :: "DrumMachine \<Rightarrow> DrumMachine" where
  "closeSampleLibrary s = s\<lparr>showSampleLibrary := False, selectedPadIndex := None\<rparr>"

text \<open>
  \<open>assignSampleToPad\<close>: the event carries the new sample key and, for an uploaded
  sample, its data. With no pad selected nothing happens. Reading \<open>sampleKey\<close> of a pad
  that does not exist throws a \<open>TypeError\<close>. The pattern stored under the pad's old
  key, if there is one, is deleted there and stored under the new key.
\<close>

definition assignSampleToPad :: "string \<Rightarrow> string option \<Rightarrow> DrumMachine \<Rightarrow> error + DrumMachine" where
  "assignSampleToPad newKey base64Data s =
     (case selectedPadIndex s of
        None \<Rightarrow> Inr s
      | Some padIndex \<Rightarrow>
          let s1 = (case base64Data of
                      None \<Rightarrow> s
                    | Some d \<Rightarrow>
                        if d = [] then s
                        else s\<lparr>customSampleData := AList.update newKey d (customSampleData s)\<rparr>)
          in if padIndex \<ge> length (pads s1) then Inl TypeError
             else
               let oldSampleKey = sampleKey (pads s1 ! padIndex);
                   newPads = (pads s1)[padIndex := (pads s1 ! padIndex)\<lparr>sampleKey := newKey\<rparr>];
                   newSequence =
                     (case map_of (sequence s1) oldSampleKey of
                        None \<Rightarrow> sequence s1
                      | Some padSequence \<Rightarrow>
                          AList.update newKey padSequence (AList.delete oldSampleKey (sequence s1)))
               in Inr (closeSampleLibrary (s1\<lparr>pads := newPads, sequence := newSequence\<rparr>)))"

section \<open>The mixer: \<open>app.component.ts\<close>\<close>

subsection \<open>Data\<close>

record Track =
  title :: string
  artist :: string
  albumArtUrl :: string
  audioSrc :: string
  videoSrc :: "string option"

record DeckState =
  track :: Track
  isPlaying :: bool
  progress :: real
  duration :: real
  playbackRate :: real
  filterFreq :: real
  loop :: bool
  gain :: real
  eqHigh :: real
  eqMid :: real
  eqLow :: real
  drumInputVolume :: real
  wasPlayingBeforeScratch :: bool

definition initialDeckState :: DeckState where
  "initialDeckState =
     \<lparr>track = \<lparr>title = ''NO SIGNAL'', artist = ''Load a track into deck'',
                albumArtUrl = ''https://picsum.photos/seed/placeholder/500/500'',
                audioSrc = [], videoSrc = None\<rparr>,
      isPlaying = False, progress = 0, duration = 0, playbackRate = 1,
      filterFreq = 20000, loop = False, gain = 50, eqHigh = 50, eqMid = 50, eqLow = 50,
      drumInputVolume = 0, wasPlayingBeforeScratch = False\<rparr>"

datatype DeckId = A | B

datatype ViewMode = player | dj | drum | image_editor | video_editor

text \<open>The bounding rectangle that \<open>getBoundingClientRect\<close> returns for the platter.\<close>

record DOMRect =
  rect_left :: real
  rect_top :: real
  rect_width :: real
  rect_height :: real

record ScratchState =
  active :: bool
  lastAngle :: real
  platterElement :: "DOMRect option"
  initialTouchX :: "real option"
  initialTouchY :: "real option"

text \<open>An audio element, as far as the handlers read and write it.\<close>

record MediaElement =
  currentTime :: real
  el_duration :: real

text \<open>
  The nodes of one deck's chain, each by the parameter the code sets on it:
  \<open>filterNode.frequency\<close>, \<open>trimNode.gain\<close>, the gains of the three EQ filters, the
  stream that \<open>drumInputSource\<close> reads and \<open>drumInputGain.gain\<close>, and the gain of the
  deck's crossfade node \<open>gainNode\<close>. A \<open>MediaStream\<close> is known by a number.
\<close>

datatype DrumSource = dummyDrumStream | drumStream nat

record DeckNodes =
  filterNode :: real
  trimNode :: real
  eqHighNode :: real
  eqMidNode :: real
  eqLowNode :: real
  drumInputSource :: DrumSource
  drumInputGain :: real
  gainNode :: real

record AudioGraph =
  nodesA :: DeckNodes
  nodesB :: DeckNodes
  masterBus :: real

text \<open>
  \<open>currentTrackIndex\<close> is a number that \<open>playNext\<close> and \<open>playPrevious\<close> turn into
  \<open>NaN\<close> on an empty playlist (a remainder by zero).
\<close>

datatype TrackIndex = Index int | NaN

record DrumRouteEvent =
  stream :: "nat option"
  deckId :: "DeckId option"

text \<open>
  The fields of \<open>AppComponent\<close> that the deck, routing, scratch and playlist handlers
  use. \<open>audioPlayerA\<close> and \<open>audioPlayerB\<close> are the view children (\<open>None\<close> while
  the element is not in the view); \<open>audioGraph\<close> is \<open>None\<close> until
  \<open>initAudioContext\<close> has created the context and, with it, every node.
  \<open>scratchRotationA\<close> is the number of degrees inside the string \<open>rotate(..deg)\<close>.
  The last four fields belong to the effects that write node parameters and are
  explained with them.
\<close>

record AppState =
  mainViewMode :: ViewMode
  deckA :: DeckState
  deckB :: DeckState
  crossfade :: real
  isScratchingA :: bool
  isScratchingB :: bool
  scratchRotationA :: real
  scratchRotationB :: real
  scratchStateA :: ScratchState
  scratchStateB :: ScratchState
  playlist :: "Track list"
  currentTrackIndex :: TrackIndex
  volume :: real
  isDrumRoutedA :: bool
  isDrumRoutedB :: bool
  audioPlayerA :: "MediaElement option"
  audioPlayerB :: "MediaElement option"
  audioGraph :: "AudioGraph option"
  depDeckA :: bool
  depDeckB :: bool
  depVolume :: bool
  depCrossfade :: bool

definition SCRATCH_SENSITIVITY :: real where
  "SCRATCH_SENSITIVITY = 2.5"

definition initialScratchState :: ScratchState where
  "initialScratchState =
     \<lparr>active = False, lastAngle = 0, platterElement = None,
      initialTouchX = None, initialTouchY = None\<rparr>"

text \<open>
  The component after its bootstrap, before any element is in the view: the fields have
  their initial values and the parameter effects have had their first run, which found
  no node and so read no signal.
\<close>

definition initialAppState :: AppState where
  "initialAppState =
     \<lparr>mainViewMode = player, deckA = initialDeckState, deckB = initialDeckState,
      crossfade = 0, isScratchingA = False, isScratchingB = False,
      scratchRotationA = 0, scratchRotationB = 0,
      scratchStateA = initialScratchState, scratchStateB = initialScratchState,
      playlist = [], currentTrackIndex = Index (- 1), volume = 0.75,
      isDrumRoutedA = False, isDrumRoutedB = False,
      audioPlayerA = None, audioPlayerB = None, audioGraph = None,
      depDeckA = False, depDeckB = False, depVolume = False, depCrossfade = False\<rparr>"

subsection \<open>The choice \<open>deckId === 'A' ? .. : ..\<close>\<close>

fun deckOf :: "DeckId \<Rightarrow> AppState \<Rightarrow> DeckState" where
  "deckOf A s = deckA s"
| "deckOf B s = deckB s"

fun updateDeck :: "DeckId \<Rightarrow> (DeckState \<Rightarrow> DeckState) \<Rightarrow> AppState \<Rightarrow> AppState" where
  "updateDeck A f s = s\<lparr>deckA := f (deckA s)\<rparr>"
| "updateDeck B f s = s\<lparr>deckB := f (deckB s)\<rparr>"

fun audioPlayerOf :: "DeckId \<Rightarrow> AppState \<Rightarrow> MediaElement option" where
  "audioPlayerOf A s = audioPlayerA s"
| "audioPlayerOf B s = audioPlayerB s"

fun setAudioPlayer :: "DeckId \<Rightarrow> MediaElement option \<Rightarrow> AppState \<Rightarrow> AppState" where
  "setAudioPlayer A p s = s\<lparr>audioPlayerA := p\<rparr>"
| "setAudioPlayer B p s = s\<lparr>audioPlayerB := p\<rparr>"

fun isScratchingOf :: "DeckId \<Rightarrow> AppState \<Rightarrow> bool" where
  "isScratchingOf A s = isScratchingA s"
| "isScratchingOf B s = isScratchingB s"

fun setIsScratching :: "DeckId \<Rightarrow> bool \<Rightarrow> AppState \<Rightarrow> AppState" where
  "setIsScratching A b s = s\<lparr>isScratchingA := b\<rparr>"
| "setIsScratching B b s = s\<lparr>isScratchingB := b\<rparr>"

fun scratchStateOf :: "DeckId \<Rightarrow> AppState \<Rightarrow> ScratchState" where
  "scratchStateOf A s = scratchStateA s"
| "scratchStateOf B s = scratchStateB s"

fun setScratchState :: "DeckId \<Rightarrow> ScratchState \<Rightarrow> AppState \<Rightarrow> AppState" where
  "setScratchState A x s = s\<lparr>scratchStateA := x\<rparr>"
| "setScratchState B x s = s\<lparr>scratchStateB := x\<rparr>"

fun scratchRotationOf :: "DeckId \<Rightarrow> AppState \<Rightarrow> real" where
  "scratchRotationOf A s = scratchRotationA s"
| "scratchRotationOf B s = scratchRotationB s"

fun setScratchRotation :: "DeckId \<Rightarrow> real \<Rightarrow> AppState \<Rightarrow> AppState" where
  "setScratchRotation A x s = s\<lparr>scratchRotationA := x\<rparr>"
| "setScratchRotation B x s = s\<lparr>scratchRotationB := x\<rparr>"

fun isDrumRoutedOf :: "DeckId \<Rightarrow> AppState \<Rightarrow> bool" where
  "isDrumRoutedOf A s = isDrumRoutedA s"
| "isDrumRoutedOf B s = isDrumRoutedB s"

fun setIsDrumRouted :: "DeckId \<Rightarrow> bool \<Rightarrow> AppState \<Rightarrow> AppState" where
  "setIsDrumRouted A b s = s\<lparr>isDrumRoutedA := b\<rparr>"
| "setIsDrumRouted B b s = s\<lparr>isDrumRoutedB := b\<rparr>"

fun nodesOf :: "DeckId \<Rightarrow> AudioGraph \<Rightarrow> DeckNodes" where
  "nodesOf A g = nodesA g"
| "nodesOf B g = nodesB g"

fun updateNodes :: "DeckId \<Rightarrow> (DeckNodes \<Rightarrow> DeckNodes) \<Rightarrow> AudioGraph \<Rightarrow> AudioGraph" where
  "updateNodes A f g = g\<lparr>nodesA := f (nodesA g)\<rparr>"
| "updateNodes B f g = g\<lparr>nodesB := f (nodesB g)\<rparr>"

subsection \<open>The audio graph\<close>

text \<open>
  The nodes as \<open>initAudioContext\<close> leaves them: a \<open>GainNode\<close> starts at gain 1, a
  \<open>BiquadFilterNode\<close> at gain 0 and, with no frequency given, at 350 Hz; of the EQ
  filters, created at 10000 Hz, 1000 Hz and 250 Hz, the model keeps the gain; both drum
  inputs read the silent dummy stream at gain 0.
\<close>

definition newDeckNodes :: DeckNodes where
  "newDeckNodes =
     \<lparr>filterNode = 350, trimNode = 1, eqHighNode = 0, eqMidNode = 0, eqLowNode = 0,
      drumInputSource = dummyDrumStream, drumInputGain = 0, gainNode = 1\<rparr>"

definition initAudioContext :: "AppState \<Rightarrow> AppState" where
  "initAudioContext s =
     (if audioGraph s \<noteq> None then s
      else if audioPlayerA s = None \<or> audioPlayerB s = None then s
      else s\<lparr>audioGraph := Some \<lparr>nodesA = newDeckNodes, nodesB = newDeckNodes, masterBus = 1\<rparr>\<rparr>)"

definition ensureAudioContext :: "AppState \<Rightarrow> AppState" where
  "ensureAudioContext s = (if audioGraph s = None then initAudioContext s else s)"

subsection \<open>The effects of \<open>setupAudioEffects\<close> and of the constructor\<close>

text \<open>
  An Angular effect runs once after it has been registered, and again only after a signal
  that it read on its last run has changed. \<open>setupAudioEffects\<close> is called once, by the
  constructor, and registers the effects that write node parameters from the state: six
  for each deck (\<open>DeckParams\<close>), one for the master volume and one for the crossfader.

  The body of a deck effect is \<open>this.trimNodeA?.gain.setValueAtTime(this.deckA().gain / 50, ..)\<close>:
  while the node does not exist the optional chain stops before \<open>this.deckA()\<close> is
  evaluated, so the run reads no signal. The crossfade effect returns before it reads
  \<open>this.crossfade()\<close> while a gain node or the context is missing. The fields
  \<open>depDeckA\<close>, \<open>depDeckB\<close>, \<open>depVolume\<close> and \<open>depCrossfade\<close> of the state hold
  whether the last run of these effects read their signal.
\<close>

datatype ParamEffect = DeckParams DeckId | MasterVolume | Crossfade

fun tracked :: "ParamEffect \<Rightarrow> AppState \<Rightarrow> bool" where
  "tracked (DeckParams A) s = depDeckA s"
| "tracked (DeckParams B) s = depDeckB s"
| "tracked MasterVolume s = depVolume s"
| "tracked Crossfade s = depCrossfade s"

fun setTracked :: "ParamEffect \<Rightarrow> bool \<Rightarrow> AppState \<Rightarrow> AppState" where
  "setTracked (DeckParams A) b s = s\<lparr>depDeckA := b\<rparr>"
| "setTracked (DeckParams B) b s = s\<lparr>depDeckB := b\<rparr>"
| "setTracked MasterVolume b s = s\<lparr>depVolume := b\<rparr>"
| "setTracked Crossfade b s = s\<lparr>depCrossfade := b\<rparr>"

text \<open>What the six effects of a deck write when the nodes exist.\<close>

definition deckEffects :: "DeckState \<Rightarrow> DeckNodes \<Rightarrow> DeckNodes" where
  "deckEffects deck n =
     n\<lparr>filterNode := filterFreq deck,
       trimNode := gain deck / 50,
       eqHighNode := (eqHigh deck - 50) * (12 / 50),
       eqMidNode := (eqMid deck - 50) * (12 / 50),
       eqLowNode := (eqLow deck - 50) * (12 / 50),
       drumInputGain := drumInputVolume deck / 100\<rparr>"

text \<open>What the crossfade effect writes when the nodes exist.\<close>

definition crossfadeEffect :: "AppState \<Rightarrow> AudioGraph \<Rightarrow> AudioGraph" where
  "crossfadeEffect s g =
     (let x = (crossfade s + 1) / 2;
          gainA = cos (x * 0.5 * pi);
          gainB = cos ((1 - x) * 0.5 * pi)
      in g\<lparr>nodesA := (nodesA g)\<lparr>gainNode := gainA\<rparr>,
           nodesB := (nodesB g)\<lparr>gainNode := gainB\<rparr>\<rparr>)"

fun effectBody :: "ParamEffect \<Rightarrow> AppState \<Rightarrow> AudioGraph \<Rightarrow> AudioGraph" where
  "effectBody (DeckParams d) s g = updateNodes d (deckEffects (deckOf d s)) g"
| "effectBody MasterVolume s g = g\<lparr>masterBus := volume s\<rparr>"
| "effectBody Crossfade s g = crossfadeEffect s g"

text \<open>
  One run of an effect: without the nodes nothing is written and no signal is read; with
  them the parameters are written and the signal has been read.
\<close>

definition runEffect :: "ParamEffect \<Rightarrow> AppState \<Rightarrow> AppState" where
  "runEffect e s =
     (case audioGraph s of
        None \<Rightarrow> setTracked e False s
      | Some g \<Rightarrow> setTracked e True (s\<lparr>audioGraph := Some (effectBody e s g)\<rparr>))"

text \<open>
  \<open>setupAudioEffects\<close>: the effects are registered and have their first run, in the
  order of the source.
\<close>

definition setupAudioEffects :: "AppState \<Rightarrow> AppState" where
  "setupAudioEffects s =
     runEffect Crossfade
       (runEffect MasterVolume (runEffect (DeckParams B) (runEffect (DeckParams A) s)))"

text \<open>
  A later run of an effect, by the scheduler: only an effect whose last run read its
  signal can run again. (It does so after the signal has changed; the model lets it run
  at any time.)
\<close>

definition rerunEffect :: "ParamEffect \<Rightarrow> AppState \<Rightarrow> AppState" where
  "rerunEffect e s = (if tracked e s then runEffect e s else s)"

definition currentPlayerTrack :: "AppState \<Rightarrow> Track option" where
  "currentPlayerTrack s =
     (case currentTrackIndex s of
        NaN \<Rightarrow> None
      | Index idx \<Rightarrow>
          if idx \<ge> 0 \<and> idx < int (length (playlist s)) then Some (playlist s ! nat idx)
          else None)"

definition loadTrack :: "Track \<Rightarrow> DeckId \<Rightarrow> bool \<Rightarrow> AppState \<Rightarrow> AppState" where
  "loadTrack t d autoplay s =
     updateDeck d
       (\<lambda>_. initialDeckState\<lparr>track := t, isPlaying := autoplay,
                               wasPlayingBeforeScratch := autoplay\<rparr>)
       (ensureAudioContext s)"

text \<open>The effect of the constructor, which follows \<open>currentPlayerTrack\<close>.\<close>

definition constructorEffect :: "AppState \<Rightarrow> AppState" where
  "constructorEffect s =
     (if currentPlayerTrack s \<noteq> None \<and> mainViewMode s = player
      then loadTrack (the (currentPlayerTrack s)) A
             (isPlaying (deckA s) \<or> length (playlist s) = 1) s
      else if length (playlist s) = 0 \<and> mainViewMode s = player
      then s\<lparr>deckA := initialDeckState
                 \<lparr>track := (track initialDeckState)\<lparr>artist := ''Load a track to start''\<rparr>\<rparr>\<rparr>
      else s)"

subsection \<open>Transport and deck controls\<close>

definition playTrackFromPlaylist :: "int \<Rightarrow> AppState \<Rightarrow> AppState" where
  "playTrackFromPlaylist index s =
     (if index \<ge> 0 \<and> index < int (length (playlist s))
      then
        let s1 = s\<lparr>currentTrackIndex := Index index\<rparr>
        in if mainViewMode s1 = player
           then s1\<lparr>deckA := initialDeckState
                      \<lparr>track := playlist s ! nat index, isPlaying := True,
                       wasPlayingBeforeScratch := True\<rparr>\<rparr>
           else s1
      else s)"

definition playNext :: "AppState \<Rightarrow> AppState" where
  "playNext s =
     s\<lparr>currentTrackIndex :=
         (case currentTrackIndex s of
            NaN \<Rightarrow> NaN
          | Index idx \<Rightarrow>
              if length (playlist s) = 0 then NaN
              else Index ((idx + 1) smod int (length (playlist s))))\<rparr>"

definition playPrevious :: "AppState \<Rightarrow> AppState" where
  "playPrevious s =
     s\<lparr>currentTrackIndex :=
         (case currentTrackIndex s of
            NaN \<Rightarrow> NaN
          | Index idx \<Rightarrow>
              if length (playlist s) = 0 then NaN
              else Index ((idx - 1 + int (length (playlist s))) smod int (length (playlist s))))\<rparr>"

definition togglePlayPause :: "DeckId \<Rightarrow> AppState \<Rightarrow> AppState" where
  "togglePlayPause d s =
     (if audioSrc (track (deckOf d s)) \<noteq> []
      then updateDeck d
             (\<lambda>k. k\<lparr>isPlaying := \<not> isPlaying k, wasPlayingBeforeScratch := \<not> isPlaying k\<rparr>)
             (ensureAudioContext s)
      else if mainViewMode s = player \<and> length (playlist s) > 0
      then playTrackFromPlaylist
             (case currentTrackIndex s of
                Index idx \<Rightarrow> if idx \<ge> 0 then idx else 0
              | NaN \<Rightarrow> 0) s
      else s)"

definition onProgressChange :: "real \<Rightarrow> DeckId \<Rightarrow> AppState \<Rightarrow> AppState" where
  "onProgressChange v d s =
     (case audioPlayerOf d s of
        None \<Rightarrow> s
      | Some p \<Rightarrow>
          updateDeck d (\<lambda>k. k\<lparr>progress := v\<rparr>)
            (setAudioPlayer d (Some (p\<lparr>currentTime := v\<rparr>)) s))"

text \<open>
  \<open>onTimeUpdate\<close> and \<open>onLoadedMetadata\<close> are events of the audio element of the
  deck, which therefore exists; the model does nothing for an absent element.
\<close>

definition onTimeUpdate :: "DeckId \<Rightarrow> AppState \<Rightarrow> AppState" where
  "onTimeUpdate d s =
     (if isScratchingOf d s then s
      else case audioPlayerOf d s of
             None \<Rightarrow> s
           | Some p \<Rightarrow> updateDeck d (\<lambda>k. k\<lparr>progress := currentTime p\<rparr>) s)"

definition onLoadedMetadata :: "DeckId \<Rightarrow> AppState \<Rightarrow> AppState" where
  "onLoadedMetadata d s =
     (case audioPlayerOf d s of
        None \<Rightarrow> s
      | Some p \<Rightarrow> updateDeck d (\<lambda>k. k\<lparr>duration := el_duration p\<rparr>) s)"

definition onEnded :: "DeckId \<Rightarrow> AppState \<Rightarrow> AppState" where
  "onEnded d s =
     (if mainViewMode s = player \<and> d = A \<and> length (playlist s) > 0
         \<and> (case currentTrackIndex s of
               Index idx \<Rightarrow> idx < int (length (playlist s)) - 1
             | NaN \<Rightarrow> False)
      then playNext s
      else if \<not> loop (deckOf d s)
      then
        let s1 = updateDeck d (\<lambda>k. k\<lparr>isPlaying := False, progress := 0\<rparr>) s
        in case audioPlayerOf d s1 of
             None \<Rightarrow> s1
           | Some p \<Rightarrow> setAudioPlayer d (Some (p\<lparr>currentTime := 0\<rparr>)) s1
      else s)"

definition onPitchChange :: "real \<Rightarrow> DeckId \<Rightarrow> AppState \<Rightarrow> AppState" where
  "onPitchChange v d s = updateDeck d (\<lambda>k. k\<lparr>playbackRate := v\<rparr>) s"

text \<open>\<open>onFilterChange\<close>: the slider value is mapped to a frequency on a logarithmic scale.\<close>

definition onFilterChange :: "real \<Rightarrow> DeckId \<Rightarrow> AppState \<Rightarrow> AppState" where
  "onFilterChange v d s =
     (let minFreq = 20;
          maxFreq = 20000;
          freq = minFreq * ((maxFreq / minFreq) powr v)
      in updateDeck d (\<lambda>k. k\<lparr>filterFreq := freq\<rparr>) s)"

definition getNormalizedFilterValue :: "real \<Rightarrow> real" where
  "getNormalizedFilterValue freq =
     (let minFreq = 20;
          maxFreq = 20000
      in if freq \<le> minFreq then 0
         else if freq \<ge> maxFreq then 1
         else (ln freq - ln minFreq) / (ln maxFreq - ln minFreq))"

definition onGainChange :: "real \<Rightarrow> DeckId \<Rightarrow> AppState \<Rightarrow> AppState" where
  "onGainChange v d s = updateDeck d (\<lambda>k. k\<lparr>gain := v\<rparr>) s"

datatype Band = High | Mid | Low

definition onEqChange :: "real \<Rightarrow> DeckId \<Rightarrow> Band \<Rightarrow> AppState \<Rightarrow> AppState" where
  "onEqChange v d band s =
     updateDeck d
       (\<lambda>k. case band of
               High \<Rightarrow> k\<lparr>eqHigh := v\<rparr>
             | Mid \<Rightarrow> k\<lparr>eqMid := v\<rparr>
             | Low \<Rightarrow> k\<lparr>eqLow := v\<rparr>) s"

definition onDrumInputVolumeChange :: "real \<Rightarrow> DeckId \<Rightarrow> AppState \<Rightarrow> AppState" where
  "onDrumInputVolumeChange v d s = updateDeck d (\<lambda>k. k\<lparr>drumInputVolume := v\<rparr>) s"

definition onCrossfadeChange :: "real \<Rightarrow> AppState \<Rightarrow> AppState" where
  "onCrossfadeChange v s = s\<lparr>crossfade := v\<rparr>"

definition onVolumeChange :: "real \<Rightarrow> AppState \<Rightarrow> AppState" where
  "onVolumeChange v s = s\<lparr>volume := v\<rparr>"

definition toggleLoop :: "DeckId \<Rightarrow> AppState \<Rightarrow> AppState" where
  "toggleLoop d s = updateDeck d (\<lambda>k. k\<lparr>loop := \<not> loop k\<rparr>) s"

definition loadTrackToDeck :: "Track \<Rightarrow> DeckId \<Rightarrow> AppState \<Rightarrow> AppState" where
  "loadTrackToDeck t d s = loadTrack t d True s"

subsection \<open>The playlist\<close>

definition addTrackToPlaylist :: "Track \<Rightarrow> bool \<Rightarrow> AppState \<Rightarrow> AppState" where
  "addTrackToPlaylist t playImmediate s =
     (let s1 = s\<lparr>playlist := playlist s @ [t]\<rparr>
      in if playImmediate \<or> currentTrackIndex s1 = Index (- 1)
         then s1\<lparr>currentTrackIndex := Index (int (length (playlist s1)) - 1)\<rparr>
         else s1)"

text \<open>\<open>Array.findIndex\<close>: the first position that satisfies the test, or \<open>-1\<close>.\<close>

fun findIndex :: "('a \<Rightarrow> bool) \<Rightarrow> 'a list \<Rightarrow> int" where
  "findIndex P [] = - 1"
| "findIndex P (x # xs) =
     (if P x then 0 else (let r = findIndex P xs in if r < 0 then - 1 else r + 1))"

text \<open>\<open>String.toLowerCase\<close> on the letters A to Z.\<close>

definition toLowerCase :: "string \<Rightarrow> string" where
  "toLowerCase str =
     map (\<lambda>c. if 65 \<le> (of_char c :: nat) \<and> (of_char c :: nat) \<le> 90
                then char_of ((of_char c :: nat) + 32) else c) str"

record TrackIdentifier =
  ident_index :: "int option"
  ident_title :: "string option"

definition removeTrackFromPlaylist :: "TrackIdentifier \<Rightarrow> AppState \<Rightarrow> AppState" where
  "removeTrackFromPlaylist identifier s =
     (let currentPlaylist = playlist s;
          indexToRemove =
            (case ident_index identifier of
               Some i \<Rightarrow> i
             | None \<Rightarrow>
                 (case ident_title identifier of
                    None \<Rightarrow> - 1
                  | Some t \<Rightarrow>
                      if t = [] then - 1
                      else findIndex (\<lambda>k. toLowerCase (title k) = toLowerCase t) currentPlaylist))
      in if indexToRemove \<ge> 0 \<and> indexToRemove < int (length currentPlaylist)
         then
           let newPlaylist =
                 map (\<lambda>i. currentPlaylist ! i)
                   (filter (\<lambda>i. int i \<noteq> indexToRemove) [0 ..< length currentPlaylist]);
               s1 = (case currentTrackIndex s of
                       NaN \<Rightarrow> s
                     | Index c \<Rightarrow>
                         if c = indexToRemove
                         then s\<lparr>currentTrackIndex := Index (- 1), deckA := initialDeckState\<rparr>
                         else if c > indexToRemove
                         then s\<lparr>currentTrackIndex := Index (c - 1)\<rparr>
                         else s)
           in s1\<lparr>playlist := newPlaylist\<rparr>
         else s)"

text \<open>
  The value a node parameter of a deck has in the graph, \<open>None\<close> while there is no
  graph.
\<close>

definition nodeParam :: "(DeckNodes \<Rightarrow> 'a) \<Rightarrow> DeckId \<Rightarrow> AppState \<Rightarrow> 'a option" where
  "nodeParam f d s = map_option (\<lambda>g. f (nodesOf d g)) (audioGraph s)"

subsection \<open>Drum machine routing\<close>

text \<open>
  \<open>unrouteDrumMachine\<close>: when the nodes exist, the deck's drum input is rebuilt on
  the dummy stream and muted; in any case the deck's flag is cleared and its drum input
  volume is reset.
\<close>

definition unrouteDrumMachine :: "DeckId \<Rightarrow> AppState \<Rightarrow> AppState" where
  "unrouteDrumMachine d s =
     (let s1 = (case audioGraph s of
                  None \<Rightarrow> s
                | Some g \<Rightarrow>
                    s\<lparr>audioGraph :=
                        Some (updateNodes d
                          (\<lambda>n. n\<lparr>drumInputSource := dummyDrumStream, drumInputGain := 0\<rparr>) g)\<rparr>);
          s2 = setIsDrumRouted d False s1
      in updateDeck d (\<lambda>k. k\<lparr>drumInputVolume := 0\<rparr>) s2)"

text \<open>
  \<open>handleDrumRoute\<close>: both decks are unrouted first. An event without a deck or
  without a stream stops there. Otherwise, when the nodes exist, the drum input of the
  deck named by the event is rebuilt on the event's stream, its gain is set from the
  deck's drum input volume, the deck's flag is set and the deck is paused.
\<close>

definition handleDrumRoute :: "DrumRouteEvent \<Rightarrow> AppState \<Rightarrow> AppState" where
  "handleDrumRoute event s =
     (let s0 = ensureAudioContext s;
          s1 = unrouteDrumMachine A s0;
          s2 = unrouteDrumMachine B s1
      in case (deckId event, stream event) of
           (None, _) \<Rightarrow> s2\<lparr>isDrumRoutedA := False, isDrumRoutedB := False\<rparr>
         | (Some d, None) \<Rightarrow> s2\<lparr>isDrumRoutedA := False, isDrumRoutedB := False\<rparr>
         | (Some d, Some st) \<Rightarrow>
             (case audioGraph s2 of
                None \<Rightarrow> s2
              | Some g \<Rightarrow>
                  let g' = updateNodes d
                             (\<lambda>n. n\<lparr>drumInputSource := drumStream st,
                                     drumInputGain := drumInputVolume (deckOf d s2) / 100\<rparr>) g;
                      s3 = s2\<lparr>audioGraph := Some g'\<rparr>;
                      s4 = setIsDrumRouted d True s3
                  in updateDeck d (\<lambda>k. k\<lparr>isPlaying := False\<rparr>) s4))"

text \<open>
  \<open>toggleMainViewMode\<close>: the next mode in the cycle; entering the player mode pans to
  deck A, resets deck B and unroutes both decks, entering the DJ mode centres the
  crossfader.
\<close>

fun nextMode :: "ViewMode \<Rightarrow> ViewMode" where
  "nextMode player = dj"
| "nextMode dj = drum"
| "nextMode drum = image_editor"
| "nextMode image_editor = video_editor"
| "nextMode video_editor = player"

definition toggleMainViewMode :: "AppState \<Rightarrow> AppState" where
  "toggleMainViewMode s =
     (let newMode = nextMode (mainViewMode s);
          s1 = (if newMode = player
                then unrouteDrumMachine B
                       (unrouteDrumMachine A (s\<lparr>crossfade := - 1, deckB := initialDeckState\<rparr>))
                else if newMode = dj then s\<lparr>crossfade := 0\<rparr>
                else s)
      in s1\<lparr>mainViewMode := newMode\<rparr>)"

subsection \<open>Scratching\<close>

text \<open>
  \<open>Math.atan2\<close> on the reals: the angle of the point \<open>(x, y)\<close>, between \<open>- pi\<close>
  (excluded) and \<open>pi\<close>, and 0 at the origin.
\<close>

definition atan2 :: "real \<Rightarrow> real \<Rightarrow> real" where
  "atan2 y x =
     (if x > 0 then arctan (y / x)
      else if x < 0 then (if y \<ge> 0 then arctan (y / x) + pi else arctan (y / x) - pi)
      else if y > 0 then pi / 2
      else if y < 0 then - (pi / 2)
      else 0)"

text \<open>The angle of the pointer as seen from the centre of the platter.\<close>

definition pointerAngle :: "DOMRect \<Rightarrow> real \<Rightarrow> real \<Rightarrow> real" where
  "pointerAngle rect clientX clientY =
     (let centerX = rect_left rect + rect_width rect / 2;
          centerY = rect_top rect + rect_height rect / 2
      in atan2 (clientY - centerY) (clientX - centerX))"

text \<open>
  \<open>onScratchStart\<close>: the arguments are the pointer position and the bounding
  rectangle of the platter that received the event.
\<close>

definition onScratchStart :: "real \<Rightarrow> real \<Rightarrow> DOMRect \<Rightarrow> DeckId \<Rightarrow> AppState \<Rightarrow> AppState" where
  "onScratchStart clientX clientY rect d s =
     (let s0 = ensureAudioContext s
      in if duration (deckOf d s0) = 0 then s0
         else if isDrumRoutedOf d s0 then s0
         else
           let s1 = setScratchState d
                      \<lparr>active = True, lastAngle = pointerAngle rect clientX clientY,
                       platterElement = Some rect,
                       initialTouchX = Some clientX, initialTouchY = Some clientY\<rparr> s0;
               s2 = updateDeck d
                      (\<lambda>k. k\<lparr>isPlaying := False, wasPlayingBeforeScratch := isPlaying k\<rparr>) s1
           in setIsScratching d True s2)"

text \<open>
  The wrap-around of \<open>processDeck\<close>: the difference of the two angles, brought back
  by one turn when it is above \<open>pi\<close> or below \<open>- pi\<close>.
\<close>

definition deltaAngle :: "real \<Rightarrow> real \<Rightarrow> real" where
  "deltaAngle currentAngle previousAngle =
     (let d0 = currentAngle - previousAngle;
          d1 = (if d0 > pi then d0 - 2 * pi else d0)
      in if d1 < - pi then d1 + 2 * pi else d1)"

text \<open>
  \<open>processDeck\<close>, the closure that \<open>onScratch\<close> applies to each deck: the audio
  element is moved by the time that the angle stands for, the platter's rotation and
  the last angle are updated. The deck's own state is not written.
\<close>

definition processDeck :: "DeckId \<Rightarrow> real \<Rightarrow> real \<Rightarrow> AppState \<Rightarrow> AppState" where
  "processDeck d clientX clientY s =
     (let scratchState = scratchStateOf d s
      in if \<not> active scratchState \<or> platterElement scratchState = None \<or> \<not> isScratchingOf d s
         then s
         else case audioPlayerOf d s of
           None \<Rightarrow> s
         | Some audioPlayer \<Rightarrow>
             if duration (deckOf d s) = 0 then s
             else
               let currentAngle = pointerAngle (the (platterElement scratchState)) clientX clientY;
                   delta = deltaAngle currentAngle (lastAngle scratchState);
                   audioTimeChange = delta * SCRATCH_SENSITIVITY / (2 * pi);
                   s1 = setAudioPlayer d
                          (Some (audioPlayer\<lparr>currentTime :=
                             max 0 (min (el_duration audioPlayer)
                                        (currentTime audioPlayer + audioTimeChange))\<rparr>)) s;
                   s2 = setScratchRotation d (scratchRotationOf d s1 + delta * 180 / pi) s1
               in setScratchState d (scratchState\<lparr>lastAngle := currentAngle\<rparr>) s2)"

definition onScratch :: "real \<Rightarrow> real \<Rightarrow> AppState \<Rightarrow> AppState" where
  "onScratch clientX clientY s =
     (if \<not> active (scratchStateA s) \<and> \<not> active (scratchStateB s) then s
      else processDeck B clientX clientY (processDeck A clientX clientY (ensureAudioContext s)))"

definition restoreDeck :: "DeckId \<Rightarrow> AppState \<Rightarrow> AppState" where
  "restoreDeck d s =
     (if active (scratchStateOf d s)
      then
        let s1 = setScratchState d ((scratchStateOf d s)\<lparr>active := False\<rparr>) s
        in if isScratchingOf d s1
           then updateDeck d (\<lambda>k. k\<lparr>isPlaying := wasPlayingBeforeScratch k\<rparr>)
                  (setIsScratching d False s1)
           else s1
      else s)"

definition onScratchEnd :: "AppState \<Rightarrow> AppState" where
  "onScratchEnd s = restoreDeck B (restoreDeck A s)"

subsection \<open>The events of the mixer\<close>

text \<open>
  What can happen to the fields of the model: a handler that writes them is called, an
  effect runs again, or the audio elements of the view change (\<open>ViewChanged\<close>, with the
  two elements as they are afterwards: they appear, disappear, and their clock and
  duration move with the media).
\<close>

datatype AppEvent =
    TogglePlayPause DeckId
  | OnProgressChange real DeckId
  | OnTimeUpdate DeckId
  | OnLoadedMetadata DeckId
  | OnEnded DeckId
  | OnPitchChange real DeckId
  | OnFilterChange real DeckId
  | OnGainChange real DeckId
  | OnEqChange real DeckId Band
  | OnDrumInputVolumeChange real DeckId
  | OnCrossfadeChange real
  | OnVolumeChange real
  | ToggleLoop DeckId
  | LoadTrackToDeck Track DeckId
  | AddTrackToPlaylist Track bool
  | RemoveTrackFromPlaylist TrackIdentifier
  | PlayTrackFromPlaylist int
  | PlayNext
  | PlayPrevious
  | ToggleMainViewMode
  | HandleDrumRoute DrumRouteEvent
  | UnrouteDrumMachine DeckId
  | OnScratchStart real real DOMRect DeckId
  | OnScratch real real
  | OnScratchEnd
  | RerunEffect ParamEffect
  | ConstructorEffect
  | ViewChanged "MediaElement option" "MediaElement option"

fun step :: "AppEvent \<Rightarrow> AppState \<Rightarrow> AppState" where
  "step (TogglePlayPause d) s = togglePlayPause d s"
| "step (OnProgressChange v d) s = onProgressChange v d s"
| "step (OnTimeUpdate d) s = onTimeUpdate d s"
| "step (OnLoadedMetadata d) s = onLoadedMetadata d s"
| "step (OnEnded d) s = onEnded d s"
| "step (OnPitchChange v d) s = onPitchChange v d s"
| "step (OnFilterChange v d) s = onFilterChange v d s"
| "step (OnGainChange v d) s = onGainChange v d s"
| "step (OnEqChange v d band) s = onEqChange v d band s"
| "step (OnDrumInputVolumeChange v d) s = onDrumInputVolumeChange v d s"
| "step (OnCrossfadeChange v) s = onCrossfadeChange v s"
| "step (OnVolumeChange v) s = onVolumeChange v s"
| "step (ToggleLoop d) s = toggleLoop d s"
| "step (LoadTrackToDeck t d) s = loadTrackToDeck t d s"
| "step (AddTrackToPlaylist t b) s = addTrackToPlaylist t b s"
| "step (RemoveTrackFromPlaylist i) s = removeTrackFromPlaylist i s"
| "step (PlayTrackFromPlaylist i) s = playTrackFromPlaylist i s"
| "step PlayNext s = playNext s"
| "step PlayPrevious s = playPrevious s"
| "step ToggleMainViewMode s = toggleMainViewMode s"
| "step (HandleDrumRoute ev) s = handleDrumRoute ev s"
| "step (UnrouteDrumMachine d) s = unrouteDrumMachine d s"
| "step (OnScratchStart x y r d) s = onScratchStart x y r d s"
| "step (OnScratch x y) s = onScratch x y s"
| "step OnScratchEnd s = onScratchEnd s"
| "step (RerunEffect e) s = rerunEffect e s"
| "step ConstructorEffect s = constructorEffect s"
| "step (ViewChanged a b) s = s\<lparr>audioPlayerA := a, audioPlayerB := b\<rparr>"

text \<open>The states that the component reaches from its initial state.\<close>

inductive reachable :: "AppState \<Rightarrow> bool" where
  reachable_init: "reachable initialAppState"
| reachable_step: "reachable s \<Longrightarrow> reachable (step ev s)"

text \<open>
  The stream that the drum input of a deck reads; without a graph there is no drum input,
  and nothing but silence reaches the deck.
\<close>

definition drumSourceOf :: "DeckId \<Rightarrow> AppState \<Rightarrow> DrumSource" where
  "drumSourceOf d s =
     (case audioGraph s of
        None \<Rightarrow> dummyDrumStream
      | Some g \<Rightarrow> drumInputSource (nodesOf d g))"

text \<open>A deck is routed when its flag is set and its drum input reads a drum stream.\<close>

definition routed :: "DeckId \<Rightarrow> AppState \<Rightarrow> bool" where
  "routed d s \<longleftrightarrow> isDrumRoutedOf d s \<and> drumSourceOf d s \<noteq> dummyDrumStream"

text \<open>
  The invariant of the routing state: the two flags are never both set, and the flag of
  a deck is set exactly when its drum input reads a drum stream.
\<close>

definition routingInv :: "AppState \<Rightarrow> bool" where
  "routingInv s \<longleftrightarrow>
     \<not> (isDrumRoutedA s \<and> isDrumRoutedB s) \<and>
     (isDrumRoutedA s \<longleftrightarrow> drumSourceOf A s \<noteq> dummyDrumStream) \<and>
     (isDrumRoutedB s \<longleftrightarrow> drumSourceOf B s \<noteq> dummyDrumStream)"

text \<open>
  Two more invariants: the last angle of either scratch state lies between \<open>- pi\<close> and
  \<open>pi\<close>, and the current track index, when it is a number, is at least \<open>-1\<close>.
\<close>

definition angleInv :: "AppState \<Rightarrow> bool" where
  "angleInv s \<longleftrightarrow>
     - pi \<le> lastAngle (scratchStateA s) \<and> lastAngle (scratchStateA s) \<le> pi \<and>
     - pi \<le> lastAngle (scratchStateB s) \<and> lastAngle (scratchStateB s) \<le> pi"

definition indexInv :: "AppState \<Rightarrow> bool" where
  "indexInv s \<longleftrightarrow> (case currentTrackIndex s of NaN \<Rightarrow> True | Index i \<Rightarrow> - 1 \<le> i)"

text \<open>
  The invariant of the parameter effects: none of them depends on a signal, and the
  parameters that only they write are as \<open>initAudioContext\<close> created them.
\<close>

definition asCreated :: "DeckNodes \<Rightarrow> bool" where
  "asCreated n \<longleftrightarrow>
     filterNode n = 350 \<and> trimNode n = 1 \<and> eqHighNode n = 0 \<and> eqMidNode n = 0 \<and>
     eqLowNode n = 0 \<and> gainNode n = 1"

definition effectsInv :: "AppState \<Rightarrow> bool" where
  "effectsInv s \<longleftrightarrow>
     \<not> depDeckA s \<and> \<not> depDeckB s \<and> \<not> depVolume s \<and> \<not> depCrossfade s \<and>
     (\<forall>g. audioGraph s = Some g \<longrightarrow>
        asCreated (nodesA g) \<and> asCreated (nodesB g) \<and> masterBus g = 1)"

section \<open>Concrete states\<close>

text \<open>
  A drum machine in which two pads share a sample key: on the initial kit, step 0 of pad 0
  is switched on, pad 0 is given the sample of pad 1, and the library is opened on pad 0
  again.
\<close>

definition sharedKeyState :: DrumMachine where
  "sharedKeyState =
     openSampleLibrary 0
       (projr (assignSampleToPad ''kick909'' None
                 (openSampleLibrary 0 (toggleStep 0 0 initialDrumMachine))))"

text \<open>An audio element ten seconds long, at second 5.\<close>

definition audioElement :: MediaElement where
  "audioElement = \<lparr>currentTime = 5, el_duration = 10\<rparr>"

definition demoTrack :: "string \<Rightarrow> Track" where
  "demoTrack name =
     \<lparr>title = name, artist = ''Local File'', albumArtUrl = ''art'',
      audioSrc = ''blob:'' @ name, videoSrc = None\<rparr>"

text \<open>
  A mixer with a track playing on deck A, the drum machine routed to deck B, and the
  drum input volume of deck A raised to 80.
\<close>

definition routedToB :: AppState where
  "routedToB =
     step (OnDrumInputVolumeChange 80 A)
       (step (HandleDrumRoute \<lparr>stream = Some 1, deckId = Some B\<rparr>)
         (step (LoadTrackToDeck (demoTrack ''one'') A)
           (step (ViewChanged (Some audioElement) (Some audioElement)) initialAppState)))"

text \<open>
  The player with two tracks in its playlist, the first of them playing on deck A, and a
  third track playing on deck B, at second 5.
\<close>

definition playerTwoTracks :: AppState where
  "playerTwoTracks =
     step (OnTimeUpdate B)
       (step (LoadTrackToDeck (demoTrack ''three'') B)
         (step ConstructorEffect
           (step (AddTrackToPlaylist (demoTrack ''two'') False)
             (step ConstructorEffect
               (step (AddTrackToPlaylist (demoTrack ''one'') False)
                 (step (ViewChanged (Some audioElement) (Some audioElement))
                    initialAppState))))))"

text \<open>
  A platter of 200 by 200 pixels at the origin of the page, its centre at (100, 100);
  deck A with a track loaded and its metadata read; and a scratch on deck A that starts
  to the right of the centre, or to the left of it.
\<close>

definition platter :: DOMRect where
  "platter = \<lparr>rect_left = 0, rect_top = 0, rect_width = 200, rect_height = 200\<rparr>"

definition deckAReady :: AppState where
  "deckAReady =
     step (OnLoadedMetadata A)
       (step (LoadTrackToDeck (demoTrack ''one'') A)
         (step (ViewChanged (Some audioElement) (Some audioElement)) initialAppState))"

definition scratchAtRight :: AppState where
  "scratchAtRight = step (OnScratchStart 150 100 platter A) deckAReady"

definition scratchAtLeft :: AppState where
  "scratchAtLeft = step (OnScratchStart 50 100 platter A) deckAReady"

text \<open>
  Deck A is ready and the graph exists. The crossfader is moved fully to deck B; or the
  gain of deck A is set to 100 and its low EQ to 0. In both cases every effect that can
  run again has done so.
\<close>

definition crossfadeFullB :: AppState where
  "crossfadeFullB =
     step (RerunEffect Crossfade) (step (OnCrossfadeChange 1) deckAReady)"

definition gainRaised :: AppState where
  "gainRaised =
     step (RerunEffect (DeckParams A))
       (step (OnEqChange 0 A Low) (step (OnGainChange 100 A) deckAReady))"

section \<open>The drum machine: properties\<close>

lemmas drum_eval =
  assignSampleToPad_def openSampleLibrary_def closeSampleLibrary_def toggleStep_def
  initialDrumMachine_def createEmptySequence_def kits_def mkPad_def Let_def sharedKeyState_def

lemmas sequencer_eval =
  start_def initialDrumMachine_def scheduleNextStep_def Let_def

subsection \<open>Step timing\<close>

lemma smod_nonneg: "0 \<le> (k::int) \<Longrightarrow> 0 < l \<Longrightarrow> k smod l = k mod l"
  by (cases "k = 0") (simp_all add: signed_modulo_int_def)

text \<open>
  Claim C2. While the sequencer plays at a positive tempo, every tick sets the next
  timeout to \<open>(60 / bpm) / 4\<close> seconds (the model holds the delay in milliseconds, as
  the call of \<open>setTimeout\<close> does), computed from the tempo of the state the tick runs
  in, so that a tempo changed by \<open>onBpmChange\<close> is the one the next tick uses; at
  120 BPM the delay is 0.125 s, at 60 BPM 0.25 s. The tick moves the step index to its
  successor modulo 16, for an index from \<open>-1\<close> (its value before the first start and
  after a reset) upwards.
\<close>

theorem sequencer_tick_timing:
  assumes "dm_isPlaying s" and "0 < bpm s" and "- 1 \<le> currentStep s"
  shows "timerId (scheduleNextStep s) = Some ((60 / real_of_int (bpm s)) / 4 * 1000)
       \<and> timerId (timeoutCallback s) = Some ((60 / real_of_int (bpm s)) / 4 * 1000)
       \<and> (\<forall>n > 0. timerId (timeoutCallback (onBpmChange (Some n) s))
                     = Some ((60 / real_of_int n) / 4 * 1000))
       \<and> (bpm s = 120 \<longrightarrow> timerId (timeoutCallback s) = Some (0.125 * 1000))
       \<and> (bpm s = 60 \<longrightarrow> timerId (timeoutCallback s) = Some (0.25 * 1000))
       \<and> currentStep (timeoutCallback s) = (currentStep s + 1) mod 16
       \<and> 0 \<le> currentStep (timeoutCallback s) \<and> currentStep (timeoutCallback s) < 16"
proof -
  have 1: "timerId (scheduleNextStep s) = Some ((60 / real_of_int (bpm s)) / 4 * 1000)"
    using assms(1) by (simp add: scheduleNextStep_def Let_def)
  have 2: "timerId (timeoutCallback s) = Some ((60 / real_of_int (bpm s)) / 4 * 1000)"
    using assms(1) by (simp add: timeoutCallback_def scheduleNextStep_def Let_def)
  have 3: "\<forall>n > 0. timerId (timeoutCallback (onBpmChange (Some n) s))
                     = Some ((60 / real_of_int n) / 4 * 1000)"
    using assms(1) by (simp add: timeoutCallback_def scheduleNextStep_def onBpmChange_def Let_def)
  have 4: "bpm s = 120 \<longrightarrow> timerId (timeoutCallback s) = Some (0.125 * 1000)"
    using 2 by simp
  have 5: "bpm s = 60 \<longrightarrow> timerId (timeoutCallback s) = Some (0.25 * 1000)"
    using 2 by simp
  have "currentStep (timeoutCallback s) = (currentStep s + 1) smod 16"
    using assms(1) by (simp add: timeoutCallback_def scheduleNextStep_def Let_def)
  also have "\<dots> = (currentStep s + 1) mod 16"
    using assms(3) by (intro smod_nonneg) simp_all
  finally have 6: "currentStep (timeoutCallback s) = (currentStep s + 1) mod 16" .
  have 7: "0 \<le> currentStep (timeoutCallback s) \<and> currentStep (timeoutCallback s) < 16"
    unfolding 6 by simp
  from 1 2 3 4 5 6 7 show ?thesis by blast
qed

theorem sequencer_tick_timing_witness:
  "dm_isPlaying (start initialDrumMachine) \<and> 0 < bpm (start initialDrumMachine)
   \<and> - 1 \<le> currentStep (start initialDrumMachine)
   \<and> timerId (timeoutCallback (start initialDrumMachine)) = Some 125
   \<and> currentStep (timeoutCallback (start initialDrumMachine)) = 1
   \<and> timerId (timeoutCallback (onBpmChange (Some 60) (start initialDrumMachine))) = Some 250"
proof -
  have h1: "dm_isPlaying (start initialDrumMachine)"
    by (simp add: sequencer_eval)
  have h2: "0 < bpm (start initialDrumMachine)"
    by (simp add: sequencer_eval)
  have h3: "- 1 \<le> currentStep (start initialDrumMachine)"
    by (simp add: sequencer_eval)
  have b: "bpm (start initialDrumMachine) = 120"
    by (simp add: sequencer_eval)
  have c: "currentStep (start initialDrumMachine) = 0"
    by (simp add: sequencer_eval)
  show ?thesis
    using h1 h2 h3 sequencer_tick_timing [OF h1 h2 h3] by (simp add: b c)
qed

subsection \<open>Reassigning a pad\<close>

text \<open>
  Claim C3, as amended. A pad is selected whose key \<open>kickA\<close> holds the step array
  \<open>S\<close>, and it is given another key \<open>kickB\<close>. Afterwards the pad has the key
  \<open>kickB\<close>, the mapping holds \<open>S\<close> under \<open>kickB\<close>, \<open>kickA\<close> is absent from the
  mapping, and every other key is as before. Nothing is asked of the other pads: the
  old key is deleted whether or not one of them still uses it.
\<close>

theorem assignSampleToPad_migrates:
  assumes "selectedPadIndex s = Some i" and "i < length (pads s)"
    and "sampleKey (pads s ! i) = kickA" and "map_of (sequence s) kickA = Some S"
    and "kickB \<noteq> kickA"
  shows "\<exists>s'. assignSampleToPad kickB base64Data s = Inr s'
            \<and> sampleKey (pads s' ! i) = kickB
            \<and> map_of (sequence s') kickB = Some S
            \<and> map_of (sequence s') kickA = None
            \<and> (\<forall>k. k \<noteq> kickA \<and> k \<noteq> kickB \<longrightarrow> map_of (sequence s') k = map_of (sequence s) k)"
  using assms
  by (auto simp: assignSampleToPad_def closeSampleLibrary_def Let_def update_conv' delete_conv'
           split: option.splits)

theorem assignSampleToPad_migrates_witness:
  "selectedPadIndex sharedKeyState = Some 0 \<and> 0 < length (pads sharedKeyState)
   \<and> sampleKey (pads sharedKeyState ! 0) = ''kick909''
   \<and> map_of (sequence sharedKeyState) ''kick909'' = Some ((replicate 16 False)[0 := True])
   \<and> ''kick808'' \<noteq> ''kick909''
   \<and> (\<exists>s'. assignSampleToPad ''kick808'' None sharedKeyState = Inr s'
            \<and> map_of (sequence s') ''kick808'' = Some ((replicate 16 False)[0 := True])
            \<and> map_of (sequence s') ''kick909'' = None)"
proof -
  have h1: "selectedPadIndex sharedKeyState = Some 0" by (simp add: drum_eval)
  have h2: "0 < length (pads sharedKeyState)" by (simp add: drum_eval)
  have h3: "sampleKey (pads sharedKeyState ! 0) = ''kick909''" by (simp add: drum_eval)
  have h4: "map_of (sequence sharedKeyState) ''kick909'' = Some ((replicate 16 False)[0 := True])"
    by (simp add: drum_eval)
  have h5: "''kick808'' \<noteq> ''kick909''" by simp
  from assignSampleToPad_migrates [OF h1 h2 h3 h4 h5, of None] h1 h2 h3 h4 h5
  show ?thesis by blast
qed

text \<open>
  Claim C3 as stated fails: in \<open>sharedKeyState\<close> pads 0 and 1 both use
  \<open>kick909\<close>, which holds a pattern. Pad 0 is given \<open>kick808\<close>. Pad 1 still uses
  \<open>kick909\<close>, and \<open>kick909\<close> is no longer in the mapping.
\<close>

theorem assignSampleToPad_shared_key_counterexample:
  "sampleKey (pads sharedKeyState ! 0) = ''kick909''
   \<and> sampleKey (pads sharedKeyState ! 1) = ''kick909''
   \<and> map_of (sequence sharedKeyState) ''kick909'' = Some ((replicate 16 False)[0 := True])
   \<and> \<not> isl (assignSampleToPad ''kick808'' None sharedKeyState)
   \<and> sampleKey (pads (projr (assignSampleToPad ''kick808'' None sharedKeyState)) ! 1) = ''kick909''
   \<and> map_of (sequence (projr (assignSampleToPad ''kick808'' None sharedKeyState))) ''kick909'' = None"
  by (simp add: drum_eval)

subsection \<open>Changing the kit\<close>

lemma createEmptySequence_aux:
  "fst ` set (foldl (\<lambda>m pad. AList.update (sampleKey pad) (replicate 16 False) m) acc ps)
     = fst ` set acc \<union> sampleKey ` set ps"
  by (induction ps arbitrary: acc) (auto simp: dom_update)

lemma foldl_update_values:
  "\<forall>e \<in> set acc. snd e = v \<Longrightarrow>
   \<forall>e \<in> set (foldl (\<lambda>m pad. AList.update (sampleKey pad) v m) acc ps). snd e = v"
proof (induction ps arbitrary: acc)
  case Nil
  then show ?case by simp
next
  case (Cons p ps)
  have "\<forall>e \<in> set (AList.update (sampleKey p) v acc). snd e = v"
    using Cons.prems by (induction acc) auto
  then show ?case using Cons.IH by simp
qed

lemma foldl_update_distinct:
  "distinct (map fst acc) \<Longrightarrow>
   distinct (map fst (foldl (\<lambda>m pad. AList.update (sampleKey pad) v m) acc ps))"
  by (induction ps arbitrary: acc) (auto simp: distinct_update)

lemma createEmptySequence_keys:
  "fst ` set (createEmptySequence s) = sampleKey ` set (pads s)"
  by (simp add: createEmptySequence_def createEmptySequence_aux)

lemma createEmptySequence_values:
  "\<forall>e \<in> set (createEmptySequence s). snd e = replicate 16 False"
  unfolding createEmptySequence_def by (rule foldl_update_values) simp

lemma createEmptySequence_distinct:
  "distinct (map fst (createEmptySequence s))"
  unfolding createEmptySequence_def by (rule foldl_update_distinct) simp

lemma kit_only: "find (\<lambda>k. kit_name k = kitName) kits = Some kit \<Longrightarrow> kit = kits ! 0"
  by (auto simp: kits_def split: if_splits)

lemma kits0_sequence_length:
  "length (createEmptySequence (s\<lparr>pads := kit_pads (kits ! 0)\<rparr>)) = 16"
  by (simp add: createEmptySequence_def kits_def mkPad_def)

lemma kits0_pads_length: "length (kit_pads (kits ! 0)) = 16"
  by (simp add: kits_def)

text \<open>
  Claim C4. After \<open>changeKit\<close> with the name of a kit, the pads are the kit's pads, the
  keys of the step mapping are exactly the sample keys of those pads, every entry is the
  array of sixteen \<open>false\<close>, no key occurs twice and there are as many entries as pads:
  one entry per pad. The sequencer is stopped.
\<close>

theorem changeKit_rebuilds_sequence:
  assumes "find (\<lambda>k. kit_name k = kitName) kits = Some kit"
  shows "activeKit (changeKit kitName s) = kit
       \<and> pads (changeKit kitName s) = kit_pads kit
       \<and> fst ` set (sequence (changeKit kitName s)) = sampleKey ` set (kit_pads kit)
       \<and> (\<forall>e \<in> set (sequence (changeKit kitName s)). snd e = replicate 16 False)
       \<and> distinct (map fst (sequence (changeKit kitName s)))
       \<and> length (sequence (changeKit kitName s)) = length (pads (changeKit kitName s))
       \<and> \<not> dm_isPlaying (changeKit kitName s)"
proof -
  have k: "kit = kits ! 0" using assms by (rule kit_only)
  define s3 where "s3 = (stop s)\<lparr>activeKit := kit, pads := kit_pads kit\<rparr>"
  have ck: "changeKit kitName s = s3\<lparr>sequence := createEmptySequence s3\<rparr>"
    using assms by (simp add: changeKit_def Let_def s3_def)
  have p3: "pads s3 = kit_pads kit" by (simp add: s3_def)
  have 1: "activeKit (changeKit kitName s) = kit" by (simp add: ck s3_def)
  have 2: "pads (changeKit kitName s) = kit_pads kit" by (simp add: ck s3_def)
  have 3: "fst ` set (sequence (changeKit kitName s)) = sampleKey ` set (kit_pads kit)"
    by (simp add: ck createEmptySequence_keys p3)
  have 4: "\<forall>e \<in> set (sequence (changeKit kitName s)). snd e = replicate 16 False"
    using createEmptySequence_values [of s3] by (simp add: ck)
  have 5: "distinct (map fst (sequence (changeKit kitName s)))"
    using createEmptySequence_distinct [of s3] by (simp add: ck)
  have "length (createEmptySequence s3) = 16"
    unfolding s3_def k by (rule kits0_sequence_length)
  then have 6: "length (sequence (changeKit kitName s)) = length (pads (changeKit kitName s))"
    by (simp add: ck p3 k kits0_pads_length)
  have 7: "\<not> dm_isPlaying (changeKit kitName s)" by (simp add: ck s3_def stop_def)
  from 1 2 3 4 5 6 7 show ?thesis by blast
qed

theorem changeKit_rebuilds_sequence_witness:
  "find (\<lambda>k. kit_name k = ''808 Classic'') kits = Some (kits ! 0)
   \<and> map_of (sequence sharedKeyState) ''kick808'' = None
   \<and> fst ` set (sequence (changeKit ''808 Classic'' sharedKeyState))
       = sampleKey ` set (kit_pads (kits ! 0))
   \<and> length (sequence (changeKit ''808 Classic'' sharedKeyState)) = 16"
proof -
  have h: "find (\<lambda>k. kit_name k = ''808 Classic'') kits = Some (kits ! 0)"
    by (simp add: kits_def)
  have n: "map_of (sequence sharedKeyState) ''kick808'' = None"
    by (simp add: drum_eval)
  have "pads (changeKit ''808 Classic'' sharedKeyState) = kit_pads (kits ! 0)"
    using changeKit_rebuilds_sequence [OF h] by blast
  then have "length (pads (changeKit ''808 Classic'' sharedKeyState)) = 16"
    by (simp add: kits_def)
  with h n changeKit_rebuilds_sequence [OF h, of sharedKeyState]
  show ?thesis by simp
qed

section \<open>The mixer: properties\<close>

lemmas app_eval =
  routedToB_def playerTwoTracks_def audioElement_def demoTrack_def
  initialAppState_def initialDeckState_def initialScratchState_def
  handleDrumRoute_def unrouteDrumMachine_def ensureAudioContext_def initAudioContext_def
  newDeckNodes_def loadTrackToDeck_def loadTrack_def onDrumInputVolumeChange_def
  addTrackToPlaylist_def constructorEffect_def currentPlayerTrack_def onTimeUpdate_def
  routed_def drumSourceOf_def nodeParam_def Let_def

subsection \<open>The parameter effects\<close>

lemma ParamEffect_cases:
  assumes "e = DeckParams A \<Longrightarrow> P" and "e = DeckParams B \<Longrightarrow> P"
    and "e = MasterVolume \<Longrightarrow> P" and "e = Crossfade \<Longrightarrow> P"
  shows P
proof (cases e)
  case (DeckParams d)
  then show ?thesis using assms(1,2) by (cases d) simp_all
qed (use assms in simp_all)

lemma runEffect_no_graph:
  "audioGraph s = None \<Longrightarrow> \<not> tracked e (runEffect e s) \<and> audioGraph (runEffect e s) = None"
  by (cases e rule: ParamEffect_cases) (simp_all add: runEffect_def)

text \<open>The first run of the effects, at bootstrap, leaves the initial state as it is.\<close>

lemma setupAudioEffects_bootstrap: "setupAudioEffects initialAppState = initialAppState"
  by (simp add: setupAudioEffects_def runEffect_def initialAppState_def)

lemma effectsInv_rerunEffect: "effectsInv s \<Longrightarrow> rerunEffect e s = s"
  by (cases e rule: ParamEffect_cases) (simp_all add: effectsInv_def rerunEffect_def)

lemma effectsInv_frame:
  "effectsInv (updateDeck d f s) = effectsInv s"
  "effectsInv (setAudioPlayer d p s) = effectsInv s"
  "effectsInv (setScratchRotation d x s) = effectsInv s"
  "effectsInv (setScratchState d st s) = effectsInv s"
  "effectsInv (setIsScratching d b s) = effectsInv s"
  "effectsInv (setIsDrumRouted d b s) = effectsInv s"
  by (cases d; simp add: effectsInv_def)+

lemma effectsInv_fields:
  "effectsInv (s\<lparr>deckA := a\<rparr>) = effectsInv s"
  "effectsInv (s\<lparr>deckB := b\<rparr>) = effectsInv s"
  "effectsInv (s\<lparr>crossfade := c\<rparr>) = effectsInv s"
  "effectsInv (s\<lparr>volume := v\<rparr>) = effectsInv s"
  "effectsInv (s\<lparr>currentTrackIndex := i\<rparr>) = effectsInv s"
  "effectsInv (s\<lparr>mainViewMode := m\<rparr>) = effectsInv s"
  "effectsInv (s\<lparr>audioPlayerA := pa\<rparr>) = effectsInv s"
  "effectsInv (s\<lparr>audioPlayerB := pb\<rparr>) = effectsInv s"
  "effectsInv (s\<lparr>playlist := pl\<rparr>) = effectsInv s"
  "effectsInv (s\<lparr>isDrumRoutedA := ra\<rparr>) = effectsInv s"
  "effectsInv (s\<lparr>isDrumRoutedB := rb\<rparr>) = effectsInv s"
  by (simp_all add: effectsInv_def)

lemma effectsInv_ensure: "effectsInv s \<Longrightarrow> effectsInv (ensureAudioContext s)"
  by (auto simp: effectsInv_def asCreated_def ensureAudioContext_def initAudioContext_def
                 newDeckNodes_def)

lemma asCreated_drum:
  "asCreated (n\<lparr>drumInputSource := x, drumInputGain := y\<rparr>) = asCreated n"
  by (simp add: asCreated_def)

lemma effectsInv_unroute: "effectsInv s \<Longrightarrow> effectsInv (unrouteDrumMachine d s)"
  by (cases d)
     (auto simp: effectsInv_def unrouteDrumMachine_def Let_def asCreated_drum
           split: option.splits)

lemma effectsInv_handleDrumRoute: "effectsInv s \<Longrightarrow> effectsInv (handleDrumRoute ev s)"
proof -
  assume "effectsInv s"
  then have i: "effectsInv (unrouteDrumMachine B (unrouteDrumMachine A (ensureAudioContext s)))"
    by (intro effectsInv_unroute effectsInv_ensure)
  show ?thesis
    using i
    by (cases "deckId ev"; cases "stream ev"; cases "the (deckId ev)")
       (auto simp: handleDrumRoute_def Let_def effectsInv_def asCreated_drum
             split: option.splits)
qed

lemma effectsInv_loadTrack: "effectsInv s \<Longrightarrow> effectsInv (loadTrack t d b s)"
  by (simp add: loadTrack_def effectsInv_frame effectsInv_ensure)

lemma effectsInv_playTrackFromPlaylist:
  "effectsInv s \<Longrightarrow> effectsInv (playTrackFromPlaylist i s)"
  by (simp add: playTrackFromPlaylist_def Let_def effectsInv_fields)

lemma effectsInv_processDeck: "effectsInv s \<Longrightarrow> effectsInv (processDeck d x y s)"
  by (simp add: processDeck_def Let_def effectsInv_frame split: option.splits)

lemma effectsInv_restoreDeck: "effectsInv s \<Longrightarrow> effectsInv (restoreDeck d s)"
  by (simp add: restoreDeck_def Let_def effectsInv_frame)

lemma effectsInv_step: "effectsInv s \<Longrightarrow> effectsInv (step ev s)"
  by (cases ev)
     (simp_all add: effectsInv_frame effectsInv_fields effectsInv_ensure effectsInv_unroute
        effectsInv_handleDrumRoute effectsInv_loadTrack effectsInv_playTrackFromPlaylist
        effectsInv_processDeck effectsInv_restoreDeck effectsInv_rerunEffect
        togglePlayPause_def onProgressChange_def onTimeUpdate_def onLoadedMetadata_def
        onEnded_def playNext_def playPrevious_def onPitchChange_def
        onFilterChange_def onGainChange_def onEqChange_def onDrumInputVolumeChange_def
        onCrossfadeChange_def onVolumeChange_def toggleLoop_def loadTrackToDeck_def
        addTrackToPlaylist_def removeTrackFromPlaylist_def toggleMainViewMode_def
        onScratchStart_def onScratch_def onScratchEnd_def constructorEffect_def Let_def
        split: option.splits TrackIndex.splits)

text \<open>
  In every state the mixer reaches, no parameter effect depends on a signal, and trim,
  EQ, filter, crossfade and master gains are as they were created: the effects never
  write them.
\<close>

lemma reachable_effectsInv: "reachable s \<Longrightarrow> effectsInv s"
proof (induction rule: reachable.induct)
  case reachable_init
  show ?case by (simp add: effectsInv_def initialAppState_def)
next
  case (reachable_step s ev)
  then show ?case by (simp add: effectsInv_step)
qed

lemma reachable_gains_as_created:
  assumes "reachable s" and "audioGraph s = Some g"
  shows "gainNode (nodesOf d g) = 1" and "trimNode (nodesOf d g) = 1"
    and "eqHighNode (nodesOf d g) = 0" and "eqMidNode (nodesOf d g) = 0"
    and "eqLowNode (nodesOf d g) = 0"
  using reachable_effectsInv [OF assms(1)] assms(2)
  by (cases d; simp add: effectsInv_def asCreated_def)+

lemmas effects_eval =
  crossfadeFullB_def gainRaised_def deckAReady_def audioElement_def demoTrack_def
  initialAppState_def initialDeckState_def initialScratchState_def
  rerunEffect_def runEffect_def onCrossfadeChange_def onGainChange_def onEqChange_def
  onLoadedMetadata_def loadTrackToDeck_def loadTrack_def
  ensureAudioContext_def initAudioContext_def newDeckNodes_def nodeParam_def Let_def

subsection \<open>The crossfader\<close>

lemma equal_power: "(cos (x * 0.5 * pi))\<^sup>2 + (cos ((1 - x) * 0.5 * pi))\<^sup>2 = (1::real)"
proof -
  have "(1 - x) * 0.5 * pi = pi / 2 - x * 0.5 * pi"
    by (simp add: left_diff_distrib)
  then have "cos ((1 - x) * 0.5 * pi) = cos (pi / 2 - x * 0.5 * pi)"
    by (rule arg_cong)
  also have "\<dots> = sin (x * 0.5 * pi)"
    using sin_cos_eq [of "x * 0.5 * pi"] by simp
  finally have e: "cos ((1 - x) * 0.5 * pi) = sin (x * 0.5 * pi)" .
  show ?thesis unfolding e by (rule sin_cos_squared_add2)
qed

text \<open>
  What a run of the crossfade effect writes when the nodes exist is the equal-power law
  of the claim.
\<close>

lemma crossfadeEffect_law:
  "gainNode (nodesA (crossfadeEffect s g)) = cos ((crossfade s + 1) / 2 * pi / 2)"
  "gainNode (nodesB (crossfadeEffect s g)) = cos ((1 - (crossfade s + 1) / 2) * pi / 2)"
  "(gainNode (nodesA (crossfadeEffect s g)))\<^sup>2 + (gainNode (nodesB (crossfadeEffect s g)))\<^sup>2 = 1"
  using equal_power [of "(crossfade s + 1) / 2"] by (simp_all add: crossfadeEffect_def Let_def)

text \<open>
  Claim C1 does not hold of the program. The crossfade effect has its only run at
  bootstrap, where it returns before it reads the crossfader, so it never runs again and
  the gains of the two decks stay at 1. In \<open>crossfadeFullB\<close> the graph exists and the
  crossfader has been moved to 1: the claim gives deck A the gain \<open>cos (pi / 2) = 0\<close>,
  the gain of its node is 1, and so is that of deck B.
\<close>

theorem crossfade_gains_not_applied:
  "crossfade crossfadeFullB = 1
   \<and> nodeParam gainNode A crossfadeFullB = Some 1
   \<and> nodeParam gainNode B crossfadeFullB = Some 1
   \<and> cos ((crossfade crossfadeFullB + 1) / 2 * pi / 2) = 0
   \<and> \<not> tracked Crossfade crossfadeFullB"
proof -
  have c: "crossfade crossfadeFullB = 1" by (simp add: effects_eval)
  have a: "nodeParam gainNode A crossfadeFullB = Some 1" by (simp add: effects_eval)
  have b: "nodeParam gainNode B crossfadeFullB = Some 1" by (simp add: effects_eval)
  have t: "\<not> tracked Crossfade crossfadeFullB" by (simp add: effects_eval)
  have "cos ((crossfade crossfadeFullB + 1) / 2 * pi / 2) = cos (pi / 2)"
    unfolding c by simp
  then have z: "cos ((crossfade crossfadeFullB + 1) / 2 * pi / 2) = 0" by simp
  from c a b z t show ?thesis by blast
qed

subsection \<open>The filter control\<close>

lemma powr_1000_mono: "0 < v \<Longrightarrow> v < 1 \<Longrightarrow> 1 < (1000::real) powr v \<and> (1000::real) powr v < 1000"
proof -
  assume v: "0 < v" "v < 1"
  have "(1000::real) powr 0 < 1000 powr v" using v by (intro powr_less_mono) simp_all
  moreover have "(1000::real) powr v < 1000 powr 1" using v by (intro powr_less_mono) simp_all
  ultimately show ?thesis by simp
qed

lemma onFilterChange_freq:
  "filterFreq (deckOf d (onFilterChange v d s)) = 20 * (1000 powr v)"
  by (cases d) (simp_all add: onFilterChange_def Let_def)

lemma ln_ratio: "ln (20000::real) - ln 20 = ln 1000"
proof -
  have "ln (20000 / 20 :: real) = ln 20000 - ln 20" by (rule ln_divide_pos) simp_all
  then show ?thesis by simp
qed

text \<open>
  Claim C7. For a slider value \<open>v\<close> between 0 and 1, \<open>onFilterChange\<close> stores the
  frequency \<open>20 * (20000 / 20) ^ v\<close> in the deck, and \<open>getNormalizedFilterValue\<close> of
  that frequency is \<open>v\<close> again; the values 0 and 1 give 20 Hz and 20000 Hz. (On the
  reals the round trip is exact, hence within any tolerance.)
\<close>

theorem filter_frequency_round_trip:
  assumes "0 \<le> v" and "v \<le> 1"
  shows "filterFreq (deckOf d (onFilterChange v d s)) = 20 * (20000 / 20) powr v
       \<and> getNormalizedFilterValue (filterFreq (deckOf d (onFilterChange v d s))) = v
       \<and> filterFreq (deckOf d (onFilterChange 0 d s)) = 20
       \<and> filterFreq (deckOf d (onFilterChange 1 d s)) = 20000"
proof -
  have 1: "filterFreq (deckOf d (onFilterChange v d s)) = 20 * (20000 / 20) powr v"
    by (simp add: onFilterChange_freq)
  have 3: "filterFreq (deckOf d (onFilterChange 0 d s)) = 20"
    by (simp add: onFilterChange_freq)
  have 4: "filterFreq (deckOf d (onFilterChange 1 d s)) = 20000"
    by (simp add: onFilterChange_freq)
  have 2: "getNormalizedFilterValue (filterFreq (deckOf d (onFilterChange v d s))) = v"
  proof -
    consider "v = 0" | "v = 1" | "0 < v" "v < 1" using assms by fastforce
    then show ?thesis
    proof cases
      case 1 then show ?thesis by (simp add: onFilterChange_freq getNormalizedFilterValue_def)
    next
      case 2 then show ?thesis by (simp add: onFilterChange_freq getNormalizedFilterValue_def)
    next
      case 3
      from powr_1000_mono [OF 3] have b: "1 < (1000::real) powr v" "(1000::real) powr v < 1000"
        by simp_all
      have "ln (20 * (1000 powr v)) = ln 20 + ln (1000 powr v :: real)"
        by (rule ln_mult_pos) simp_all
      also have "\<dots> = ln 20 + v * ln 1000" by (simp add: ln_powr)
      finally have l: "ln (20 * (1000 powr v)) - ln 20 = v * ln (1000::real)" by simp
      have "ln (1000::real) > 0" by simp
      then show ?thesis
        using b l by (simp add: onFilterChange_freq getNormalizedFilterValue_def Let_def ln_ratio)
    qed
  qed
  from 1 2 3 4 show ?thesis by blast
qed

theorem filter_frequency_round_trip_witness:
  "(0::real) \<le> 1 / 2 \<and> (1 / 2 :: real) \<le> 1
   \<and> getNormalizedFilterValue (filterFreq (deckOf A (onFilterChange (1 / 2) A initialAppState))) = 1 / 2
   \<and> filterFreq (deckOf A (onFilterChange 1 A initialAppState)) = 20000"
proof -
  have h1: "(0::real) \<le> 1 / 2" and h2: "(1 / 2 :: real) \<le> 1" by simp_all
  from filter_frequency_round_trip [OF h1 h2, of A initialAppState] h1 h2
  show ?thesis by blast
qed

subsection \<open>Gain trim and EQ\<close>

text \<open>What a run of the effects of a deck writes when the nodes exist is the mapping of the claim.\<close>

lemma deckEffects_mapping:
  "trimNode (deckEffects k n) = gain k / 50"
  "eqHighNode (deckEffects k n) = (eqHigh k - 50) * 12 / 50"
  "eqMidNode (deckEffects k n) = (eqMid k - 50) * 12 / 50"
  "eqLowNode (deckEffects k n) = (eqLow k - 50) * 12 / 50"
  by (simp_all add: deckEffects_def)

text \<open>
  Claim C8 does not hold of the program. The effects of a deck have their only run at
  bootstrap, where the optional chain on the missing node stops before the deck's state
  is read, so they never run again and trim and EQ gains stay as created. In
  \<open>gainRaised\<close> the graph exists, the gain of deck A has been set to 100 and its low
  EQ to 0: the claim gives the trim 2 and the low band \<open>-12\<close> dB, the nodes have 1
  and 0.
\<close>

theorem gain_and_eq_not_applied:
  "gain (deckA gainRaised) = 100 \<and> eqLow (deckA gainRaised) = 0
   \<and> nodeParam trimNode A gainRaised = Some 1
   \<and> nodeParam eqLowNode A gainRaised = Some 0
   \<and> gain (deckA gainRaised) / 50 = 2
   \<and> (eqLow (deckA gainRaised) - 50) * 12 / 50 = - 12
   \<and> \<not> tracked (DeckParams A) gainRaised"
  by (simp add: effects_eval)

subsection \<open>The end of a track\<close>

text \<open>The current track index never goes below \<open>-1\<close> in a state the mixer reaches.\<close>

lemma smod_ge_zero: "0 \<le> (k::int) \<Longrightarrow> 0 < l \<Longrightarrow> 0 \<le> k smod l"
  by (simp add: smod_nonneg)

lemma smod_one: "(k::int) smod 1 = 0"
  by (simp add: signed_modulo_int_def)

lemma indexInv_frame:
  "indexInv (updateDeck d f s) = indexInv s"
  "indexInv (setAudioPlayer d p s) = indexInv s"
  "indexInv (setScratchRotation d x s) = indexInv s"
  "indexInv (setScratchState d st s) = indexInv s"
  "indexInv (setIsScratching d b s) = indexInv s"
  "indexInv (setIsDrumRouted d b s) = indexInv s"
  "indexInv (ensureAudioContext s) = indexInv s"
  by (cases d; simp add: indexInv_def ensureAudioContext_def initAudioContext_def)+

lemma indexInv_fields:
  "indexInv (s\<lparr>deckA := a\<rparr>) = indexInv s"
  "indexInv (s\<lparr>deckB := b\<rparr>) = indexInv s"
  "indexInv (s\<lparr>crossfade := c\<rparr>) = indexInv s"
  "indexInv (s\<lparr>volume := v\<rparr>) = indexInv s"
  "indexInv (s\<lparr>mainViewMode := m\<rparr>) = indexInv s"
  "indexInv (s\<lparr>audioPlayerA := pa\<rparr>) = indexInv s"
  "indexInv (s\<lparr>audioPlayerB := pb\<rparr>) = indexInv s"
  "indexInv (s\<lparr>playlist := pl\<rparr>) = indexInv s"
  "indexInv (s\<lparr>audioGraph := g\<rparr>) = indexInv s"
  "indexInv (s\<lparr>isDrumRoutedA := ra\<rparr>) = indexInv s"
  "indexInv (s\<lparr>isDrumRoutedB := rb\<rparr>) = indexInv s"
  by (simp_all add: indexInv_def)

lemma indexInv_unroute: "indexInv (unrouteDrumMachine d s) = indexInv s"
  by (simp add: unrouteDrumMachine_def Let_def indexInv_frame indexInv_fields split: option.splits)

lemma indexInv_handleDrumRoute: "indexInv (handleDrumRoute ev s) = indexInv s"
  by (simp add: handleDrumRoute_def Let_def indexInv_frame indexInv_fields indexInv_unroute
           split: option.splits)

lemma indexInv_loadTrack: "indexInv (loadTrack t d b s) = indexInv s"
  by (simp add: loadTrack_def indexInv_frame)

lemma indexInv_playTrackFromPlaylist: "indexInv s \<Longrightarrow> indexInv (playTrackFromPlaylist i s)"
  by (simp add: playTrackFromPlaylist_def Let_def indexInv_def)

lemma indexInv_processDeck: "indexInv (processDeck d x y s) = indexInv s"
  by (simp add: processDeck_def Let_def indexInv_frame split: option.splits)

lemma indexInv_restoreDeck: "indexInv (restoreDeck d s) = indexInv s"
  by (simp add: restoreDeck_def Let_def indexInv_frame)

lemma indexInv_playNext: "indexInv s \<Longrightarrow> indexInv (playNext s)"
proof (cases "currentTrackIndex s")
  case NaN
  then show ?thesis by (simp add: playNext_def indexInv_def)
next
  case (Index i)
  assume "indexInv s"
  then have i: "0 \<le> i + 1" using Index by (simp add: indexInv_def)
  show ?thesis
  proof (cases "playlist s = []")
    case True
    then show ?thesis using Index by (simp add: playNext_def indexInv_def)
  next
    case False
    then have "0 \<le> (i + 1) smod int (length (playlist s))"
      using i by (intro smod_ge_zero) simp_all
    then show ?thesis using Index False by (simp add: playNext_def indexInv_def)
  qed
qed

lemma indexInv_playPrevious: "indexInv s \<Longrightarrow> indexInv (playPrevious s)"
proof (cases "currentTrackIndex s")
  case NaN
  then show ?thesis by (simp add: playPrevious_def indexInv_def)
next
  case (Index i)
  assume "indexInv s"
  then have i: "- 1 \<le> i" using Index by (simp add: indexInv_def)
  consider "playlist s = []" | "length (playlist s) = 1" | "2 \<le> length (playlist s)"
    by (cases "playlist s") (auto simp: Suc_le_eq)
  then show ?thesis
  proof cases
    case 1
    then show ?thesis using Index by (simp add: playPrevious_def indexInv_def)
  next
    case 2
    then show ?thesis using Index by (simp add: playPrevious_def indexInv_def smod_one)
  next
    case 3
    then have n: "playlist s \<noteq> []" by auto
    have "0 \<le> (i - 1 + int (length (playlist s))) smod int (length (playlist s))"
      using i 3 n by (intro smod_ge_zero) simp_all
    then show ?thesis using Index n by (simp add: playPrevious_def indexInv_def)
  qed
qed

lemma indexInv_togglePlayPause: "indexInv s \<Longrightarrow> indexInv (togglePlayPause d s)"
  by (simp add: togglePlayPause_def indexInv_frame indexInv_playTrackFromPlaylist)

lemma indexInv_onEnded: "indexInv s \<Longrightarrow> indexInv (onEnded d s)"
  by (simp add: onEnded_def Let_def indexInv_frame indexInv_playNext split: option.splits)

lemma indexInv_addTrack: "indexInv s \<Longrightarrow> indexInv (addTrackToPlaylist t b s)"
  by (simp add: addTrackToPlaylist_def Let_def indexInv_def)

lemma indexInv_removeTrack: "indexInv s \<Longrightarrow> indexInv (removeTrackFromPlaylist i s)"
  by (auto simp: removeTrackFromPlaylist_def Let_def indexInv_def split: TrackIndex.splits)

lemma indexInv_rerunEffect: "indexInv s \<Longrightarrow> indexInv (rerunEffect e s)"
  by (cases e rule: ParamEffect_cases)
     (simp_all add: indexInv_def rerunEffect_def runEffect_def split: option.splits)

lemma indexInv_step: "indexInv s \<Longrightarrow> indexInv (step ev s)"
  by (cases ev)
     (simp_all add: indexInv_frame indexInv_fields indexInv_unroute indexInv_handleDrumRoute
        indexInv_loadTrack indexInv_playTrackFromPlaylist indexInv_processDeck
        indexInv_restoreDeck indexInv_playNext indexInv_playPrevious indexInv_togglePlayPause
        indexInv_onEnded indexInv_addTrack indexInv_removeTrack
        onProgressChange_def onTimeUpdate_def onLoadedMetadata_def onPitchChange_def
        onFilterChange_def onGainChange_def onEqChange_def onDrumInputVolumeChange_def
        onCrossfadeChange_def onVolumeChange_def toggleLoop_def loadTrackToDeck_def
        toggleMainViewMode_def onScratchStart_def onScratch_def onScratchEnd_def
        indexInv_rerunEffect constructorEffect_def Let_def
        split: option.splits)

lemma reachable_indexInv: "reachable s \<Longrightarrow> indexInv s"
proof (induction rule: reachable.induct)
  case reachable_init
  show ?case by (simp add: indexInv_def initialAppState_def)
next
  case (reachable_step s ev)
  then show ?case by (simp add: indexInv_step)
qed

text \<open>
  Claim C9. \<open>onEnded\<close> on a deck whose loop flag is off. Unless the deck is deck A in
  player mode and the playlist has a track after the current one, the deck's progress
  becomes 0, its \<open>isPlaying\<close> becomes false and nothing else of the deck changes, so
  its track stays. In the excepted case (the current index \<open>i\<close>, which is never below
  \<open>-1\<close>, is below the last index) the handler only moves the current index to \<open>i + 1\<close>;
  the constructor's effect then loads that next track into deck A, playing if the deck
  was playing.
\<close>

theorem onEnded_loop_off:
  assumes "\<not> loop (deckOf d s)"
  shows "(\<not> (mainViewMode s = player \<and> d = A \<and> playlist s \<noteq> []
             \<and> (\<exists>i. currentTrackIndex s = Index i \<and> i < int (length (playlist s)) - 1))
          \<longrightarrow> deckOf d (onEnded d s) = (deckOf d s)\<lparr>isPlaying := False, progress := 0\<rparr>
            \<and> progress (deckOf d (onEnded d s)) = 0
            \<and> \<not> isPlaying (deckOf d (onEnded d s))
            \<and> track (deckOf d (onEnded d s)) = track (deckOf d s)
            \<and> currentTrackIndex (onEnded d s) = currentTrackIndex s)
       \<and> (\<forall>i. mainViewMode s = player \<and> d = A \<and> currentTrackIndex s = Index i
               \<and> - 1 \<le> i \<and> i < int (length (playlist s)) - 1
          \<longrightarrow> onEnded d s = s\<lparr>currentTrackIndex := Index (i + 1)\<rparr>
            \<and> currentPlayerTrack (onEnded d s) = Some (playlist s ! nat (i + 1))
            \<and> track (deckA (constructorEffect (onEnded d s))) = playlist s ! nat (i + 1)
            \<and> isPlaying (deckA (constructorEffect (onEnded d s)))
                = (isPlaying (deckA s) \<or> length (playlist s) = 1))"
proof -
  have 0: "\<not> (mainViewMode s = player \<and> d = A \<and> playlist s \<noteq> []
             \<and> (\<exists>i. currentTrackIndex s = Index i \<and> i < int (length (playlist s)) - 1))
          \<longrightarrow> deckOf d (onEnded d s) = (deckOf d s)\<lparr>isPlaying := False, progress := 0\<rparr>
            \<and> currentTrackIndex (onEnded d s) = currentTrackIndex s"
    using assms
    by (cases d; cases "currentTrackIndex s")
       (auto simp: onEnded_def Let_def split: option.splits)
  have 1: "\<not> (mainViewMode s = player \<and> d = A \<and> playlist s \<noteq> []
             \<and> (\<exists>i. currentTrackIndex s = Index i \<and> i < int (length (playlist s)) - 1))
          \<longrightarrow> deckOf d (onEnded d s) = (deckOf d s)\<lparr>isPlaying := False, progress := 0\<rparr>
            \<and> progress (deckOf d (onEnded d s)) = 0
            \<and> \<not> isPlaying (deckOf d (onEnded d s))
            \<and> track (deckOf d (onEnded d s)) = track (deckOf d s)
            \<and> currentTrackIndex (onEnded d s) = currentTrackIndex s"
  proof
    assume "\<not> (mainViewMode s = player \<and> d = A \<and> playlist s \<noteq> []
             \<and> (\<exists>i. currentTrackIndex s = Index i \<and> i < int (length (playlist s)) - 1))"
    with 0 have e: "deckOf d (onEnded d s) = (deckOf d s)\<lparr>isPlaying := False, progress := 0\<rparr>"
      and c: "currentTrackIndex (onEnded d s) = currentTrackIndex s" by blast+
    show "deckOf d (onEnded d s) = (deckOf d s)\<lparr>isPlaying := False, progress := 0\<rparr>
            \<and> progress (deckOf d (onEnded d s)) = 0
            \<and> \<not> isPlaying (deckOf d (onEnded d s))
            \<and> track (deckOf d (onEnded d s)) = track (deckOf d s)
            \<and> currentTrackIndex (onEnded d s) = currentTrackIndex s"
      using c by (simp add: e)
  qed
  have 2: "onEnded d s = s\<lparr>currentTrackIndex := Index (i + 1)\<rparr>
            \<and> currentPlayerTrack (onEnded d s) = Some (playlist s ! nat (i + 1))
            \<and> track (deckA (constructorEffect (onEnded d s))) = playlist s ! nat (i + 1)
            \<and> isPlaying (deckA (constructorEffect (onEnded d s)))
                = (isPlaying (deckA s) \<or> length (playlist s) = 1)"
    if h: "mainViewMode s = player \<and> d = A \<and> currentTrackIndex s = Index i
               \<and> - 1 \<le> i \<and> i < int (length (playlist s)) - 1" for i
  proof -
    have len: "0 < length (playlist s)" using h by auto
    have m: "(i + 1) smod int (length (playlist s)) = i + 1"
    proof -
      have "(i + 1) smod int (length (playlist s)) = (i + 1) mod int (length (playlist s))"
        using h len by (intro smod_nonneg) simp_all
      also have "\<dots> = i + 1" using h by simp
      finally show ?thesis .
    qed
    have e: "onEnded d s = s\<lparr>currentTrackIndex := Index (i + 1)\<rparr>"
      using h len m by (simp add: onEnded_def playNext_def)
    have c: "currentPlayerTrack (s\<lparr>currentTrackIndex := Index (i + 1)\<rparr>)
               = Some (playlist s ! nat (i + 1))"
      using h by (simp add: currentPlayerTrack_def)
    show ?thesis
      unfolding e using c h
      by (simp add: constructorEffect_def loadTrack_def)
  qed
  from 1 2 show ?thesis by blast
qed

theorem onEnded_loop_off_witness:
  "\<not> loop (deckOf A playerTwoTracks) \<and> \<not> loop (deckOf B playerTwoTracks)
   \<and> mainViewMode playerTwoTracks = player \<and> currentTrackIndex playerTwoTracks = Index 0
   \<and> length (playlist playerTwoTracks) = 2
   \<and> isPlaying (deckA playerTwoTracks)
   \<and> track (deckA playerTwoTracks) = demoTrack ''one''
   \<and> currentTrackIndex (onEnded A playerTwoTracks) = Index 1
   \<and> track (deckA (constructorEffect (onEnded A playerTwoTracks))) = demoTrack ''two''
   \<and> isPlaying (deckA (constructorEffect (onEnded A playerTwoTracks)))
   \<and> isPlaying (deckB playerTwoTracks) \<and> progress (deckB playerTwoTracks) = 5
   \<and> progress (deckOf B (onEnded B playerTwoTracks)) = 0
   \<and> \<not> isPlaying (deckOf B (onEnded B playerTwoTracks))
   \<and> track (deckOf B (onEnded B playerTwoTracks)) = demoTrack ''three''"
proof -
  have pb: "isPlaying (deckB playerTwoTracks) \<and> progress (deckB playerTwoTracks) = 5"
    by (simp add: app_eval)
  have tb: "track (deckOf B playerTwoTracks) = demoTrack ''three''" by (simp add: app_eval)
  have la: "\<not> loop (deckOf A playerTwoTracks)" by (simp add: app_eval)
  have lb: "\<not> loop (deckOf B playerTwoTracks)" by (simp add: app_eval)
  have m: "mainViewMode playerTwoTracks = player" by (simp add: app_eval)
  have i: "currentTrackIndex playerTwoTracks = Index 0" by (simp add: app_eval)
  have pl: "playlist playerTwoTracks = [demoTrack ''one'', demoTrack ''two'']"
    by (simp add: app_eval)
  have p: "isPlaying (deckA playerTwoTracks)" by (simp add: app_eval)
  have t: "track (deckA playerTwoTracks) = demoTrack ''one''" by (simp add: app_eval)
  have c: "mainViewMode playerTwoTracks = player \<and> A = A
      \<and> currentTrackIndex playerTwoTracks = Index 0
      \<and> - 1 \<le> (0::int) \<and> 0 < int (length (playlist playerTwoTracks)) - 1"
    using m i pl by simp
  from onEnded_loop_off [OF la] c
  have a: "onEnded A playerTwoTracks = playerTwoTracks\<lparr>currentTrackIndex := Index (0 + 1)\<rparr>
      \<and> track (deckA (constructorEffect (onEnded A playerTwoTracks)))
           = playlist playerTwoTracks ! nat (0 + 1)
      \<and> isPlaying (deckA (constructorEffect (onEnded A playerTwoTracks)))
           = (isPlaying (deckA playerTwoTracks) \<or> length (playlist playerTwoTracks) = 1)"
    by blast
  from a have "onEnded A playerTwoTracks = playerTwoTracks\<lparr>currentTrackIndex := Index (0 + 1)\<rparr>"
    by blast
  then have a1: "currentTrackIndex (onEnded A playerTwoTracks) = Index 1" by simp
  from a have "track (deckA (constructorEffect (onEnded A playerTwoTracks)))
           = playlist playerTwoTracks ! nat (0 + 1)" by blast
  then have a2: "track (deckA (constructorEffect (onEnded A playerTwoTracks))) = demoTrack ''two''"
    by (simp add: pl)
  from a p have a3: "isPlaying (deckA (constructorEffect (onEnded A playerTwoTracks)))"
    by blast
  from onEnded_loop_off [OF lb]
  have b: "progress (deckOf B (onEnded B playerTwoTracks)) = 0
      \<and> \<not> isPlaying (deckOf B (onEnded B playerTwoTracks))
      \<and> track (deckOf B (onEnded B playerTwoTracks)) = track (deckOf B playerTwoTracks)"
    by blast
  then have b': "progress (deckOf B (onEnded B playerTwoTracks)) = 0
      \<and> \<not> isPlaying (deckOf B (onEnded B playerTwoTracks))
      \<and> track (deckOf B (onEnded B playerTwoTracks)) = demoTrack ''three''"
    unfolding tb by blast
  have l2: "length (playlist playerTwoTracks) = 2" by (simp add: pl)
  from la lb m i l2 p t a1 a2 a3 pb b' show ?thesis by blast
qed

subsection \<open>Drum machine routing\<close>

lemmas graph_defs = ensureAudioContext_def initAudioContext_def newDeckNodes_def

lemma routingInv_init: "routingInv initialAppState"
  by (simp add: routingInv_def drumSourceOf_def initialAppState_def)

lemma routingInv_ensure: "routingInv s \<Longrightarrow> routingInv (ensureAudioContext s)"
  by (auto simp: routingInv_def drumSourceOf_def graph_defs split: option.splits)

lemma routingInv_updateDeck: "routingInv (updateDeck d f s) = routingInv s"
  by (cases d) (simp_all add: routingInv_def drumSourceOf_def)

lemma routingInv_setAudioPlayer: "routingInv (setAudioPlayer d p s) = routingInv s"
  by (cases d) (simp_all add: routingInv_def drumSourceOf_def)

lemma routingInv_setScratchState: "routingInv (setScratchState d x s) = routingInv s"
  by (cases d) (simp_all add: routingInv_def drumSourceOf_def)

lemma routingInv_setScratchRotation: "routingInv (setScratchRotation d x s) = routingInv s"
  by (cases d) (simp_all add: routingInv_def drumSourceOf_def)

lemma routingInv_setIsScratching: "routingInv (setIsScratching d x s) = routingInv s"
  by (cases d) (simp_all add: routingInv_def drumSourceOf_def)

lemmas routingInv_frame =
  routingInv_updateDeck routingInv_setAudioPlayer routingInv_setScratchState
  routingInv_setScratchRotation routingInv_setIsScratching

lemma routingInv_fields:
  "routingInv (s\<lparr>deckA := a\<rparr>) = routingInv s"
  "routingInv (s\<lparr>deckB := b\<rparr>) = routingInv s"
  "routingInv (s\<lparr>crossfade := c\<rparr>) = routingInv s"
  "routingInv (s\<lparr>volume := v\<rparr>) = routingInv s"
  "routingInv (s\<lparr>currentTrackIndex := i\<rparr>) = routingInv s"
  "routingInv (s\<lparr>mainViewMode := m\<rparr>) = routingInv s"
  "routingInv (s\<lparr>audioPlayerA := pa\<rparr>) = routingInv s"
  "routingInv (s\<lparr>audioPlayerB := pb\<rparr>) = routingInv s"
  "routingInv (s\<lparr>playlist := pl\<rparr>) = routingInv s"
  by (simp_all add: routingInv_def drumSourceOf_def)

lemma routingInv_unroute: "routingInv s \<Longrightarrow> routingInv (unrouteDrumMachine d s)"
  by (cases d)
     (auto simp: routingInv_def drumSourceOf_def unrouteDrumMachine_def Let_def
           split: option.splits)

lemma routingInv_loadTrack: "routingInv s \<Longrightarrow> routingInv (loadTrack t d b s)"
  by (simp add: loadTrack_def routingInv_frame routingInv_ensure)

lemma routingInv_playTrackFromPlaylist:
  "routingInv s \<Longrightarrow> routingInv (playTrackFromPlaylist i s)"
  by (simp add: playTrackFromPlaylist_def Let_def routingInv_fields)

lemma routingInv_togglePlayPause: "routingInv s \<Longrightarrow> routingInv (togglePlayPause d s)"
  by (simp add: togglePlayPause_def routingInv_frame routingInv_ensure
        routingInv_playTrackFromPlaylist)

lemma routingInv_addTrack: "routingInv s \<Longrightarrow> routingInv (addTrackToPlaylist t b s)"
  by (simp add: addTrackToPlaylist_def Let_def routingInv_fields)

lemma routingInv_removeTrack: "routingInv s \<Longrightarrow> routingInv (removeTrackFromPlaylist i s)"
  by (simp add: removeTrackFromPlaylist_def Let_def routingInv_fields split: TrackIndex.splits)

lemma routingInv_playNext: "routingInv s \<Longrightarrow> routingInv (playNext s)"
  by (simp add: playNext_def routingInv_fields)

lemma routingInv_onEnded: "routingInv s \<Longrightarrow> routingInv (onEnded d s)"
  by (simp add: onEnded_def Let_def routingInv_frame routingInv_playNext split: option.splits)

lemma routingInv_runEffect: "routingInv s \<Longrightarrow> routingInv (runEffect e s)"
  by (cases e rule: ParamEffect_cases)
     (auto simp: routingInv_def drumSourceOf_def runEffect_def crossfadeEffect_def
                 deckEffects_def Let_def
           split: option.splits)

lemma routingInv_rerunEffect: "routingInv s \<Longrightarrow> routingInv (rerunEffect e s)"
  by (simp add: rerunEffect_def routingInv_runEffect)

lemma routingInv_constructorEffect: "routingInv s \<Longrightarrow> routingInv (constructorEffect s)"
  by (simp add: constructorEffect_def routingInv_loadTrack routingInv_fields)

lemma routingInv_toggleMainViewMode: "routingInv s \<Longrightarrow> routingInv (toggleMainViewMode s)"
  by (simp add: toggleMainViewMode_def Let_def routingInv_fields routingInv_unroute)

lemma routingInv_onScratchStart: "routingInv s \<Longrightarrow> routingInv (onScratchStart x y r d s)"
  by (simp add: onScratchStart_def Let_def routingInv_frame routingInv_ensure)

lemma routingInv_processDeck: "routingInv s \<Longrightarrow> routingInv (processDeck d x y s)"
  by (simp add: processDeck_def Let_def routingInv_frame split: option.splits)

lemma routingInv_onScratch: "routingInv s \<Longrightarrow> routingInv (onScratch x y s)"
  by (simp add: onScratch_def routingInv_processDeck routingInv_ensure)

lemma routingInv_restoreDeck: "routingInv s \<Longrightarrow> routingInv (restoreDeck d s)"
  by (simp add: restoreDeck_def Let_def routingInv_frame)

lemma unroute_flags:
  "\<not> isDrumRoutedA (unrouteDrumMachine B (unrouteDrumMachine A s))"
  "\<not> isDrumRoutedB (unrouteDrumMachine B (unrouteDrumMachine A s))"
  by (simp_all add: unrouteDrumMachine_def Let_def split: option.splits)

lemma handleDrumRoute_unfold:
  "handleDrumRoute ev s =
    (let s2 = unrouteDrumMachine B (unrouteDrumMachine A (ensureAudioContext s))
     in case (deckId ev, stream ev) of
       (None, _) \<Rightarrow> s2\<lparr>isDrumRoutedA := False, isDrumRoutedB := False\<rparr>
     | (Some d, None) \<Rightarrow> s2\<lparr>isDrumRoutedA := False, isDrumRoutedB := False\<rparr>
     | (Some d, Some st) \<Rightarrow>
         (case audioGraph s2 of
            None \<Rightarrow> s2
          | Some g \<Rightarrow>
              updateDeck d (\<lambda>k. k\<lparr>isPlaying := False\<rparr>)
                (setIsDrumRouted d True
                  (s2\<lparr>audioGraph := Some (updateNodes d
                             (\<lambda>n. n\<lparr>drumInputSource := drumStream st,
                                     drumInputGain := drumInputVolume (deckOf d s2) / 100\<rparr>) g)\<rparr>))))"
  by (simp add: handleDrumRoute_def Let_def split: option.splits)

lemma routingInv_handleDrumRoute: "routingInv s \<Longrightarrow> routingInv (handleDrumRoute ev s)"
proof -
  assume "routingInv s"
  define s2 where "s2 = unrouteDrumMachine B (unrouteDrumMachine A (ensureAudioContext s))"
  have i: "routingInv s2"
    unfolding s2_def using \<open>routingInv s\<close> by (intro routingInv_unroute routingInv_ensure)
  have f: "\<not> isDrumRoutedA s2" "\<not> isDrumRoutedB s2"
    unfolding s2_def by (rule unroute_flags)+
  show ?thesis
    using i f
    by (cases "deckId ev"; cases "stream ev"; cases "the (deckId ev)")
       (auto simp: handleDrumRoute_unfold s2_def [symmetric] routingInv_def drumSourceOf_def
             split: option.splits)
qed

lemma routingInv_step: "routingInv s \<Longrightarrow> routingInv (step ev s)"
proof (cases ev)
  case (HandleDrumRoute e)
  assume "routingInv s"
  then show ?thesis using HandleDrumRoute by (simp add: routingInv_handleDrumRoute)
qed (simp_all add: routingInv_frame routingInv_fields routingInv_unroute routingInv_loadTrack
       routingInv_playTrackFromPlaylist routingInv_togglePlayPause routingInv_playNext
       routingInv_addTrack routingInv_removeTrack
       routingInv_onEnded routingInv_rerunEffect routingInv_constructorEffect
       routingInv_toggleMainViewMode routingInv_onScratchStart routingInv_onScratch
       routingInv_restoreDeck
       onProgressChange_def onTimeUpdate_def onLoadedMetadata_def onPitchChange_def
       onFilterChange_def onGainChange_def onEqChange_def onDrumInputVolumeChange_def
       onCrossfadeChange_def onVolumeChange_def toggleLoop_def loadTrackToDeck_def
       playPrevious_def onScratchEnd_def Let_def split: option.splits)

lemma reachable_routingInv: "reachable s \<Longrightarrow> routingInv s"
  by (induction rule: reachable.induct) (simp_all add: routingInv_init routingInv_step)


lemma unroute_both_volume:
  "drumInputVolume (deckOf d (unrouteDrumMachine B (unrouteDrumMachine A s))) = 0"
  by (cases d) (simp_all add: unrouteDrumMachine_def Let_def split: option.splits)

lemma unroute_both_graph:
  "audioGraph (unrouteDrumMachine B (unrouteDrumMachine A s)) =
     map_option (\<lambda>g. g\<lparr>nodesA := (nodesA g)\<lparr>drumInputSource := dummyDrumStream, drumInputGain := 0\<rparr>,
                        nodesB := (nodesB g)\<lparr>drumInputSource := dummyDrumStream, drumInputGain := 0\<rparr>\<rparr>)
       (audioGraph s)"
  by (simp add: unrouteDrumMachine_def Let_def split: option.splits)

text \<open>What a routing event that names a deck and carries a stream does when the graph exists.\<close>

lemma handleDrumRoute_routes:
  assumes "deckId ev = Some d" and "stream ev = Some st"
    and "audioGraph (ensureAudioContext s) \<noteq> None"
  shows "isDrumRoutedOf d (handleDrumRoute ev s)"
    and "drumSourceOf d (handleDrumRoute ev s) = drumStream st"
    and "\<not> isPlaying (deckOf d (handleDrumRoute ev s))"
    and "d' \<noteq> d \<Longrightarrow> \<not> isDrumRoutedOf d' (handleDrumRoute ev s)"
    and "d' \<noteq> d \<Longrightarrow> nodeParam drumInputSource d' (handleDrumRoute ev s) = Some dummyDrumStream"
    and "d' \<noteq> d \<Longrightarrow> nodeParam drumInputGain d' (handleDrumRoute ev s) = Some 0"
proof -
  define s2 where "s2 = unrouteDrumMachine B (unrouteDrumMachine A (ensureAudioContext s))"
  obtain g0 where g0: "audioGraph (ensureAudioContext s) = Some g0" using assms(3) by blast
  have g2: "audioGraph s2 =
      Some (g0\<lparr>nodesA := (nodesA g0)\<lparr>drumInputSource := dummyDrumStream, drumInputGain := 0\<rparr>,
                nodesB := (nodesB g0)\<lparr>drumInputSource := dummyDrumStream, drumInputGain := 0\<rparr>\<rparr>)"
    unfolding s2_def by (simp add: unroute_both_graph g0)
  have f: "\<not> isDrumRoutedA s2" "\<not> isDrumRoutedB s2"
    unfolding s2_def by (rule unroute_flags)+
  have h: "handleDrumRoute ev s =
      updateDeck d (\<lambda>k. k\<lparr>isPlaying := False\<rparr>)
        (setIsDrumRouted d True
          (s2\<lparr>audioGraph := Some (updateNodes d
             (\<lambda>n. n\<lparr>drumInputSource := drumStream st,
                     drumInputGain := drumInputVolume (deckOf d s2) / 100\<rparr>)
             (the (audioGraph s2)))\<rparr>))"
    using assms(1,2) g2 by (simp add: handleDrumRoute_unfold s2_def [symmetric])
  show "isDrumRoutedOf d (handleDrumRoute ev s)"
    unfolding h by (cases d) simp_all
  show "drumSourceOf d (handleDrumRoute ev s) = drumStream st"
    unfolding h by (cases d) (simp_all add: drumSourceOf_def)
  show "\<not> isPlaying (deckOf d (handleDrumRoute ev s))"
    unfolding h by (cases d) simp_all
  show "d' \<noteq> d \<Longrightarrow> \<not> isDrumRoutedOf d' (handleDrumRoute ev s)"
    unfolding h using f by (cases d; cases d') simp_all
  show "d' \<noteq> d \<Longrightarrow> nodeParam drumInputSource d' (handleDrumRoute ev s) = Some dummyDrumStream"
    unfolding h by (cases d; cases d') (simp_all add: nodeParam_def g2)
  show "d' \<noteq> d \<Longrightarrow> nodeParam drumInputGain d' (handleDrumRoute ev s) = Some 0"
    unfolding h by (cases d; cases d') (simp_all add: nodeParam_def g2)
qed

text \<open>A routing event leaves no deck routed but, at most, the one it names, and that one paused.\<close>

lemma handleDrumRoute_routed_only:
  assumes "isDrumRoutedOf d (handleDrumRoute ev s)"
  shows "deckId ev = Some d \<and> \<not> isPlaying (deckOf d (handleDrumRoute ev s))"
proof -
  define s2 where "s2 = unrouteDrumMachine B (unrouteDrumMachine A (ensureAudioContext s))"
  have f: "\<not> isDrumRoutedA s2" "\<not> isDrumRoutedB s2"
    unfolding s2_def by (rule unroute_flags)+
  show ?thesis
    using assms f
    by (cases d; cases "deckId ev"; cases "stream ev"; cases "the (deckId ev)")
       (auto simp: handleDrumRoute_unfold s2_def [symmetric] split: option.splits)
qed

lemma routed_graph: "routed d s \<Longrightarrow> audioGraph (ensureAudioContext s) \<noteq> None"
  by (auto simp: routed_def drumSourceOf_def ensureAudioContext_def split: option.splits)

text \<open>
  Claim C5. In every state that the mixer reaches: if a deck is routed and a routing
  event with a stream names the other deck, then afterwards the named deck is routed and
  reads the event's stream, while the deck that was routed has its flag cleared and its
  drum input back on the silent dummy stream at gain 0. After any routing event a deck
  whose flag is set is the one the event named, and it is paused; an event that names a
  deck and carries a stream does route into it once the graph exists. The two decks are
  never routed at the same time.
\<close>

theorem drum_routing_exclusive:
  assumes "reachable s"
  shows "(\<forall>d d' st. routed d' s \<and> d \<noteq> d' \<longrightarrow>
            routed d (handleDrumRoute \<lparr>stream = Some st, deckId = Some d\<rparr> s)
          \<and> drumSourceOf d (handleDrumRoute \<lparr>stream = Some st, deckId = Some d\<rparr> s) = drumStream st
          \<and> \<not> isDrumRoutedOf d' (handleDrumRoute \<lparr>stream = Some st, deckId = Some d\<rparr> s)
          \<and> nodeParam drumInputSource d' (handleDrumRoute \<lparr>stream = Some st, deckId = Some d\<rparr> s)
              = Some dummyDrumStream
          \<and> nodeParam drumInputGain d' (handleDrumRoute \<lparr>stream = Some st, deckId = Some d\<rparr> s)
              = Some 0)
       \<and> (\<forall>ev d. isDrumRoutedOf d (handleDrumRoute ev s) \<longrightarrow>
            deckId ev = Some d \<and> \<not> isPlaying (deckOf d (handleDrumRoute ev s)))
       \<and> (\<forall>ev d st. deckId ev = Some d \<and> stream ev = Some st
                    \<and> audioGraph (ensureAudioContext s) \<noteq> None \<longrightarrow>
            routed d (handleDrumRoute ev s) \<and> \<not> isPlaying (deckOf d (handleDrumRoute ev s)))
       \<and> \<not> (isDrumRoutedA s \<and> isDrumRoutedB s)
       \<and> \<not> (routed A s \<and> routed B s)
       \<and> (\<forall>d. routed d s \<longleftrightarrow> isDrumRoutedOf d s)"
proof -
  have inv: "routingInv s" using assms by (rule reachable_routingInv)
  have 1: "\<forall>d d' st. routed d' s \<and> d \<noteq> d' \<longrightarrow>
            routed d (handleDrumRoute \<lparr>stream = Some st, deckId = Some d\<rparr> s)
          \<and> drumSourceOf d (handleDrumRoute \<lparr>stream = Some st, deckId = Some d\<rparr> s) = drumStream st
          \<and> \<not> isDrumRoutedOf d' (handleDrumRoute \<lparr>stream = Some st, deckId = Some d\<rparr> s)
          \<and> nodeParam drumInputSource d' (handleDrumRoute \<lparr>stream = Some st, deckId = Some d\<rparr> s)
              = Some dummyDrumStream
          \<and> nodeParam drumInputGain d' (handleDrumRoute \<lparr>stream = Some st, deckId = Some d\<rparr> s)
              = Some 0"
  proof (intro allI impI)
    fix d d' st
    assume a: "routed d' s \<and> d \<noteq> d'"
    let ?ev = "\<lparr>stream = Some st, deckId = Some d\<rparr>"
    have g: "audioGraph (ensureAudioContext s) \<noteq> None" using a routed_graph by blast
    have e: "deckId ?ev = Some d" "stream ?ev = Some st" by simp_all
    have n: "d' \<noteq> d" using a by blast
    show "routed d (handleDrumRoute ?ev s)
          \<and> drumSourceOf d (handleDrumRoute ?ev s) = drumStream st
          \<and> \<not> isDrumRoutedOf d' (handleDrumRoute ?ev s)
          \<and> nodeParam drumInputSource d' (handleDrumRoute ?ev s) = Some dummyDrumStream
          \<and> nodeParam drumInputGain d' (handleDrumRoute ?ev s) = Some 0"
      using handleDrumRoute_routes(1,2) [OF e g] handleDrumRoute_routes(4,5,6) [OF e g n]
      by (simp add: routed_def)
  qed
  have 2: "\<forall>ev d. isDrumRoutedOf d (handleDrumRoute ev s) \<longrightarrow>
            deckId ev = Some d \<and> \<not> isPlaying (deckOf d (handleDrumRoute ev s))"
    using handleDrumRoute_routed_only by blast
  have 3: "\<forall>ev d st. deckId ev = Some d \<and> stream ev = Some st
                    \<and> audioGraph (ensureAudioContext s) \<noteq> None \<longrightarrow>
            routed d (handleDrumRoute ev s) \<and> \<not> isPlaying (deckOf d (handleDrumRoute ev s))"
    using handleDrumRoute_routes(1,2,3) by (simp add: routed_def)
  have 4: "\<not> (isDrumRoutedA s \<and> isDrumRoutedB s)" using inv unfolding routingInv_def by blast
  have 6: "\<forall>d. routed d s \<longleftrightarrow> isDrumRoutedOf d s"
  proof
    fix d show "routed d s \<longleftrightarrow> isDrumRoutedOf d s"
      using inv by (cases d) (auto simp: routingInv_def routed_def)
  qed
  have 5: "\<not> (routed A s \<and> routed B s)" using 4 6 by simp
  from 1 2 3 4 5 6 show ?thesis by blast
qed

theorem drum_routing_exclusive_witness:
  "reachable routedToB \<and> routed B routedToB \<and> A \<noteq> B
   \<and> isPlaying (deckA routedToB)
   \<and> routed A (handleDrumRoute \<lparr>stream = Some 2, deckId = Some A\<rparr> routedToB)
   \<and> \<not> isDrumRoutedB (handleDrumRoute \<lparr>stream = Some 2, deckId = Some A\<rparr> routedToB)
   \<and> nodeParam drumInputSource B (handleDrumRoute \<lparr>stream = Some 2, deckId = Some A\<rparr> routedToB)
        = Some dummyDrumStream
   \<and> \<not> isPlaying (deckA (handleDrumRoute \<lparr>stream = Some 2, deckId = Some A\<rparr> routedToB))
   \<and> \<not> (routed A routedToB \<and> routed B routedToB)"
proof -
  have r: "reachable routedToB"
    unfolding routedToB_def by (intro reachable_step reachable_init)
  have b: "routed B routedToB" by (simp add: app_eval)
  have p: "isPlaying (deckA routedToB)" by (simp add: app_eval)
  have n: "A \<noteq> B" by simp
  let ?s' = "handleDrumRoute \<lparr>stream = Some 2, deckId = Some A\<rparr> routedToB"
  from drum_routing_exclusive [OF r] b n
  have 1: "routed A ?s' \<and> \<not> isDrumRoutedOf B ?s'
           \<and> nodeParam drumInputSource B ?s' = Some dummyDrumStream" by blast
  from drum_routing_exclusive [OF r] 1
  have 2: "\<not> isPlaying (deckOf A ?s')" unfolding routed_def by blast
  from drum_routing_exclusive [OF r]
  have 3: "\<not> (routed A routedToB \<and> routed B routedToB)" by blast
  from r b n p 1 2 3 show ?thesis by simp
qed

lemma handleDrumRoute_volume:
  "drumInputVolume (deckOf d (handleDrumRoute ev s)) = 0"
proof -
  define s2 where "s2 = unrouteDrumMachine B (unrouteDrumMachine A (ensureAudioContext s))"
  have v: "drumInputVolume (deckOf d s2) = 0" for d
    unfolding s2_def by (rule unroute_both_volume)
  show ?thesis
    using v [of d] v [of A] v [of B]
    by (cases d; cases "deckId ev"; cases "stream ev"; cases "the (deckId ev)")
       (auto simp: handleDrumRoute_unfold s2_def [symmetric] split: option.splits)
qed

lemma handleDrumRoute_gain:
  assumes "audioGraph (handleDrumRoute ev s) = Some g"
  shows "drumInputGain (nodesOf d g) = 0"
proof -
  define s2 where "s2 = unrouteDrumMachine B (unrouteDrumMachine A (ensureAudioContext s))"
  have v: "drumInputVolume (deckOf d s2) = 0" for d
    unfolding s2_def by (rule unroute_both_volume)
  have g2: "audioGraph s2 = Some g2 \<Longrightarrow>
              drumInputGain (nodesA g2) = 0 \<and> drumInputGain (nodesB g2) = 0" for g2
    unfolding s2_def by (auto simp: unroute_both_graph)
  show ?thesis
    using assms v [of A] v [of B] g2
    by (cases d; cases "deckId ev"; cases "stream ev"; cases "the (deckId ev)")
       (auto simp: handleDrumRoute_unfold s2_def [symmetric] split: option.splits)
qed

lemma setupAudioEffects_drumInputGain:
  assumes "audioGraph (setupAudioEffects s) = Some g"
  shows "drumInputGain (nodesOf d g) = drumInputVolume (deckOf d s) / 100"
  using assms
  by (cases d)
     (auto simp: setupAudioEffects_def runEffect_def crossfadeEffect_def deckEffects_def Let_def
           split: option.splits)

text \<open>
  Claim C10. Unrouting a deck resets its drum input volume to 0, and a routing event
  unroutes both decks before it routes. So after any routing event, for either deck,
  the drum input volume is 0 and, when there is a graph, the gain of the drum input is 0,
  which is also what a run of the effects of \<open>setupAudioEffects\<close> on that state writes;
  in particular a deck that the event has routed starts silent, whatever its volume was
  before.
\<close>

theorem drum_route_starts_silent:
  "drumInputVolume (deckOf d (unrouteDrumMachine d s)) = 0
   \<and> drumInputVolume (deckOf d (handleDrumRoute ev s)) = 0
   \<and> (\<forall>g. audioGraph (handleDrumRoute ev s) = Some g \<longrightarrow> drumInputGain (nodesOf d g) = 0)
   \<and> (\<forall>g. audioGraph (setupAudioEffects (handleDrumRoute ev s)) = Some g
          \<longrightarrow> drumInputGain (nodesOf d g) = 0)
   \<and> (routed d (handleDrumRoute ev s) \<longrightarrow>
        nodeParam drumInputGain d (handleDrumRoute ev s) = Some 0)"
proof -
  have 0: "drumInputVolume (deckOf d (unrouteDrumMachine d s)) = 0"
    by (cases d) (simp_all add: unrouteDrumMachine_def Let_def split: option.splits)
  have 1: "drumInputVolume (deckOf d (handleDrumRoute ev s)) = 0"
    by (rule handleDrumRoute_volume)
  have 2: "\<forall>g. audioGraph (handleDrumRoute ev s) = Some g \<longrightarrow> drumInputGain (nodesOf d g) = 0"
    using handleDrumRoute_gain by blast
  have 3: "\<forall>g. audioGraph (setupAudioEffects (handleDrumRoute ev s)) = Some g
          \<longrightarrow> drumInputGain (nodesOf d g) = 0"
  proof (intro allI impI)
    fix g
    assume "audioGraph (setupAudioEffects (handleDrumRoute ev s)) = Some g"
    then have "drumInputGain (nodesOf d g) = drumInputVolume (deckOf d (handleDrumRoute ev s)) / 100"
      by (rule setupAudioEffects_drumInputGain)
    then show "drumInputGain (nodesOf d g) = 0" by (simp add: 1)
  qed
  have 4: "routed d (handleDrumRoute ev s) \<longrightarrow>
        nodeParam drumInputGain d (handleDrumRoute ev s) = Some 0"
    using 2 by (auto simp: routed_def drumSourceOf_def nodeParam_def split: option.splits)
  from 0 1 2 3 4 show ?thesis by blast
qed

theorem drum_route_starts_silent_witness:
  "drumInputVolume (deckA routedToB) = 80
   \<and> routed A (handleDrumRoute \<lparr>stream = Some 2, deckId = Some A\<rparr> routedToB)
   \<and> drumInputVolume (deckA (handleDrumRoute \<lparr>stream = Some 2, deckId = Some A\<rparr> routedToB)) = 0
   \<and> nodeParam drumInputGain A (handleDrumRoute \<lparr>stream = Some 2, deckId = Some A\<rparr> routedToB)
        = Some 0"
proof -
  let ?s' = "handleDrumRoute \<lparr>stream = Some 2, deckId = Some A\<rparr> routedToB"
  have v: "drumInputVolume (deckA routedToB) = 80" by (simp add: app_eval)
  have r: "routed A ?s'" by (simp add: app_eval)
  from drum_route_starts_silent [of A routedToB "\<lparr>stream = Some 2, deckId = Some A\<rparr>"] r v
  show ?thesis by simp
qed

subsection \<open>Scratching\<close>

lemmas scratch_eval =
  scratchAtRight_def scratchAtLeft_def deckAReady_def platter_def audioElement_def demoTrack_def
  initialAppState_def initialDeckState_def initialScratchState_def
  onScratchStart_def onLoadedMetadata_def loadTrackToDeck_def loadTrack_def
  ensureAudioContext_def initAudioContext_def newDeckNodes_def
  pointerAngle_def atan2_def Let_def

lemma atan2_range: "- pi < atan2 y x \<and> atan2 y x \<le> pi"
proof -
  have b: "- (pi / 2) < arctan (y / x)" "arctan (y / x) < pi / 2"
    by (rule arctan_lbound, rule arctan_ubound)
  consider "x > 0" | "x < 0" "y \<ge> 0" | "x < 0" "y < 0" | "x = 0" by linarith
  then show ?thesis
  proof cases
    case 1
    then show ?thesis using b by (simp add: atan2_def)
  next
    case 2
    then have "y / x \<le> 0" by (simp add: divide_nonneg_neg)
    then have "arctan (y / x) \<le> 0" by (simp add: arctan_le_zero_iff)
    then show ?thesis using 2 b by (simp add: atan2_def)
  next
    case 3
    then have "0 < y / x" by (simp add: divide_neg_neg)
    then have "0 < arctan (y / x)" by (simp add: zero_less_arctan_iff)
    then show ?thesis using 3 b by (simp add: atan2_def)
  next
    case 4
    then have "atan2 y x = pi / 2 \<or> atan2 y x = - (pi / 2) \<or> atan2 y x = 0"
      by (simp add: atan2_def)
    then show ?thesis using pi_gt_zero by (elim disjE; intro conjI; linarith)
  qed
qed

lemma pointerAngle_range: "- pi < pointerAngle r x y \<and> pointerAngle r x y \<le> pi"
  by (simp add: pointerAngle_def Let_def atan2_range)

lemma deltaAngle_range:
  assumes "- pi < c" and "c \<le> pi" and "- pi \<le> l" and "l \<le> pi"
  shows "- pi \<le> deltaAngle c l" and "deltaAngle c l \<le> pi"
    and "deltaAngle c l = c - l \<or> deltaAngle c l = c - l - 2 * pi
           \<or> deltaAngle c l = c - l + 2 * pi"
  using assms pi_gt_zero by (auto simp: deltaAngle_def Let_def)


lemma ensureAudioContext_frame:
  "deckA (ensureAudioContext s) = deckA s"
  "deckB (ensureAudioContext s) = deckB s"
  "audioPlayerOf d (ensureAudioContext s) = audioPlayerOf d s"
  "scratchStateOf d (ensureAudioContext s) = scratchStateOf d s"
  "isScratchingOf d (ensureAudioContext s) = isScratchingOf d s"
  "deckOf d (ensureAudioContext s) = deckOf d s"
  by (cases d; simp add: ensureAudioContext_def initAudioContext_def)+

lemma processDeck_decks:
  "deckA (processDeck d x y s) = deckA s"
  "deckB (processDeck d x y s) = deckB s"
  by (cases d; simp add: processDeck_def Let_def split: option.splits)+

lemma processDeck_other:
  assumes "d' \<noteq> d"
  shows "audioPlayerOf d (processDeck d' x y s) = audioPlayerOf d s"
    and "scratchStateOf d (processDeck d' x y s) = scratchStateOf d s"
    and "isScratchingOf d (processDeck d' x y s) = isScratchingOf d s"
    and "deckOf d (processDeck d' x y s) = deckOf d s"
  using assms
  by (cases d; cases d'; simp add: processDeck_def Let_def split: option.splits)+

lemma processDeck_active:
  assumes "active (scratchStateOf d s)" and "platterElement (scratchStateOf d s) = Some rect"
    and "isScratchingOf d s" and "audioPlayerOf d s = Some p" and "duration (deckOf d s) \<noteq> 0"
  shows "audioPlayerOf d (processDeck d x y s) =
           Some (p\<lparr>currentTime :=
             max 0 (min (el_duration p)
               (currentTime p
                 + deltaAngle (pointerAngle rect x y) (lastAngle (scratchStateOf d s))
                     * SCRATCH_SENSITIVITY / (2 * pi)))\<rparr>)"
    and "lastAngle (scratchStateOf d (processDeck d x y s)) = pointerAngle rect x y"
    and "scratchRotationOf d (processDeck d x y s) =
           scratchRotationOf d s
             + deltaAngle (pointerAngle rect x y) (lastAngle (scratchStateOf d s)) * 180 / pi"
  using assms by (cases d; simp add: processDeck_def Let_def)+

text \<open>The last angle stays between \<open>- pi\<close> and \<open>pi\<close> in every state the mixer reaches.\<close>

lemma pointerAngle_bounds: "- pi \<le> pointerAngle r x y" "pointerAngle r x y \<le> pi"
  using pointerAngle_range [of r x y] by simp_all

lemma angleInv_frame:
  "angleInv (updateDeck d f s) = angleInv s"
  "angleInv (setAudioPlayer d p s) = angleInv s"
  "angleInv (setScratchRotation d x s) = angleInv s"
  "angleInv (setIsScratching d b s) = angleInv s"
  "angleInv (setIsDrumRouted d b s) = angleInv s"
  "angleInv (ensureAudioContext s) = angleInv s"
  by (cases d; simp add: angleInv_def ensureAudioContext_def initAudioContext_def)+

lemma angleInv_fields:
  "angleInv (s\<lparr>deckA := a\<rparr>) = angleInv s"
  "angleInv (s\<lparr>deckB := b\<rparr>) = angleInv s"
  "angleInv (s\<lparr>crossfade := c\<rparr>) = angleInv s"
  "angleInv (s\<lparr>volume := v\<rparr>) = angleInv s"
  "angleInv (s\<lparr>currentTrackIndex := i\<rparr>) = angleInv s"
  "angleInv (s\<lparr>mainViewMode := m\<rparr>) = angleInv s"
  "angleInv (s\<lparr>audioPlayerA := pa\<rparr>) = angleInv s"
  "angleInv (s\<lparr>audioPlayerB := pb\<rparr>) = angleInv s"
  "angleInv (s\<lparr>playlist := pl\<rparr>) = angleInv s"
  "angleInv (s\<lparr>audioGraph := g\<rparr>) = angleInv s"
  "angleInv (s\<lparr>isDrumRoutedA := ra\<rparr>) = angleInv s"
  "angleInv (s\<lparr>isDrumRoutedB := rb\<rparr>) = angleInv s"
  by (simp_all add: angleInv_def)

lemma angleInv_setScratchState:
  "angleInv s \<Longrightarrow> - pi \<le> lastAngle x \<Longrightarrow> lastAngle x \<le> pi \<Longrightarrow> angleInv (setScratchState d x s)"
  by (cases d) (simp_all add: angleInv_def)

lemma angleInv_scratchStateOf:
  "angleInv s \<Longrightarrow> - pi \<le> lastAngle (scratchStateOf d s) \<and> lastAngle (scratchStateOf d s) \<le> pi"
  by (cases d) (simp_all add: angleInv_def)

lemma angleInv_unroute: "angleInv (unrouteDrumMachine d s) = angleInv s"
  by (simp add: unrouteDrumMachine_def Let_def angleInv_frame angleInv_fields split: option.splits)

lemma angleInv_handleDrumRoute: "angleInv (handleDrumRoute ev s) = angleInv s"
  by (simp add: handleDrumRoute_def Let_def angleInv_frame angleInv_fields angleInv_unroute
           split: option.splits)

lemma angleInv_loadTrack: "angleInv (loadTrack t d b s) = angleInv s"
  by (simp add: loadTrack_def angleInv_frame)

lemma angleInv_playTrackFromPlaylist: "angleInv (playTrackFromPlaylist i s) = angleInv s"
  by (simp add: playTrackFromPlaylist_def Let_def angleInv_fields)

lemma angleInv_processDeck: "angleInv s \<Longrightarrow> angleInv (processDeck d x y s)"
  by (auto simp: processDeck_def Let_def angleInv_frame pointerAngle_bounds
           intro!: angleInv_setScratchState split: option.splits)

lemma angleInv_restoreDeck: "angleInv s \<Longrightarrow> angleInv (restoreDeck d s)"
  by (auto simp: restoreDeck_def Let_def angleInv_frame
           dest: angleInv_scratchStateOf intro!: angleInv_setScratchState)

lemma angleInv_rerunEffect: "angleInv s \<Longrightarrow> angleInv (rerunEffect e s)"
  by (cases e rule: ParamEffect_cases)
     (simp_all add: angleInv_def rerunEffect_def runEffect_def split: option.splits)

lemma angleInv_step: "angleInv s \<Longrightarrow> angleInv (step ev s)"
  by (cases ev)
     (auto simp: angleInv_frame angleInv_fields angleInv_unroute angleInv_handleDrumRoute
        angleInv_loadTrack angleInv_playTrackFromPlaylist angleInv_processDeck angleInv_restoreDeck
        pointerAngle_bounds
        togglePlayPause_def onProgressChange_def onTimeUpdate_def onLoadedMetadata_def
        onEnded_def playNext_def playPrevious_def onPitchChange_def
        onFilterChange_def onGainChange_def onEqChange_def onDrumInputVolumeChange_def
        onCrossfadeChange_def onVolumeChange_def toggleLoop_def loadTrackToDeck_def
        addTrackToPlaylist_def removeTrackFromPlaylist_def toggleMainViewMode_def
        onScratchStart_def onScratch_def onScratchEnd_def angleInv_rerunEffect
        constructorEffect_def Let_def
        intro!: angleInv_setScratchState
        split: option.splits TrackIndex.splits)

lemma reachable_angleInv: "reachable s \<Longrightarrow> angleInv s"
proof (induction rule: reachable.induct)
  case reachable_init
  show ?case using pi_gt_zero
    by (simp add: angleInv_def initialAppState_def initialScratchState_def)
next
  case (reachable_step s ev)
  then show ?case by (simp add: angleInv_step)
qed

lemma ensureAudioContext_fields:
  "audioPlayerA (ensureAudioContext s) = audioPlayerA s"
  "audioPlayerB (ensureAudioContext s) = audioPlayerB s"
  "scratchStateA (ensureAudioContext s) = scratchStateA s"
  "scratchStateB (ensureAudioContext s) = scratchStateB s"
  "isScratchingA (ensureAudioContext s) = isScratchingA s"
  "isScratchingB (ensureAudioContext s) = isScratchingB s"
  by (simp_all add: ensureAudioContext_def initAudioContext_def)

lemma processDeck_A_fields:
  "scratchStateB (processDeck A x y s) = scratchStateB s"
  "isScratchingB (processDeck A x y s) = isScratchingB s"
  "audioPlayerB (processDeck A x y s) = audioPlayerB s"
  by (simp_all add: processDeck_def Let_def split: option.splits)

lemma onScratch_active_A:
  assumes "active (scratchStateA s)" and "platterElement (scratchStateA s) = Some rect"
    and "isScratchingA s" and "audioPlayerA s = Some p" and "duration (deckA s) \<noteq> 0"
  shows "audioPlayerA (onScratch x y s) =
           Some (p\<lparr>currentTime :=
             max 0 (min (el_duration p)
               (currentTime p
                 + deltaAngle (pointerAngle rect x y) (lastAngle (scratchStateA s))
                     * SCRATCH_SENSITIVITY / (2 * pi)))\<rparr>)"
proof -
  let ?s0 = "ensureAudioContext s"
  have o: "onScratch x y s = processDeck B x y (processDeck A x y ?s0)"
    using assms(1) by (simp add: onScratch_def)
  have "audioPlayerOf A (onScratch x y s) = audioPlayerOf A (processDeck A x y ?s0)"
    unfolding o by (rule processDeck_other) simp
  moreover have "audioPlayerOf A (processDeck A x y ?s0) =
           Some (p\<lparr>currentTime :=
             max 0 (min (el_duration p)
               (currentTime p
                 + deltaAngle (pointerAngle rect x y) (lastAngle (scratchStateOf A ?s0))
                     * SCRATCH_SENSITIVITY / (2 * pi)))\<rparr>)"
    by (rule processDeck_active(1))
       (simp_all add: assms ensureAudioContext_fields ensureAudioContext_frame)
  ultimately show ?thesis by (simp add: ensureAudioContext_fields)
qed

lemma onScratch_active_B:
  assumes "active (scratchStateB s)" and "platterElement (scratchStateB s) = Some rect"
    and "isScratchingB s" and "audioPlayerB s = Some p" and "duration (deckB s) \<noteq> 0"
  shows "audioPlayerB (onScratch x y s) =
           Some (p\<lparr>currentTime :=
             max 0 (min (el_duration p)
               (currentTime p
                 + deltaAngle (pointerAngle rect x y) (lastAngle (scratchStateB s))
                     * SCRATCH_SENSITIVITY / (2 * pi)))\<rparr>)"
proof -
  let ?s0 = "ensureAudioContext s"
  let ?s1 = "processDeck A x y ?s0"
  have o: "onScratch x y s = processDeck B x y ?s1"
    using assms(1) by (simp add: onScratch_def)
  have f: "scratchStateB ?s1 = scratchStateB s" "isScratchingB ?s1 = isScratchingB s"
    "audioPlayerB ?s1 = audioPlayerB s" "deckB ?s1 = deckB s"
    by (simp_all add: processDeck_A_fields processDeck_decks ensureAudioContext_fields
          ensureAudioContext_frame)
  have "audioPlayerOf B (processDeck B x y ?s1) =
           Some (p\<lparr>currentTime :=
             max 0 (min (el_duration p)
               (currentTime p
                 + deltaAngle (pointerAngle rect x y) (lastAngle (scratchStateOf B ?s1))
                     * SCRATCH_SENSITIVITY / (2 * pi)))\<rparr>)"
    by (rule processDeck_active(1)) (simp_all add: assms f)
  then show ?thesis unfolding o by (simp add: f)
qed

lemma onScratch_active:
  assumes "active (scratchStateOf d s)" and "platterElement (scratchStateOf d s) = Some rect"
    and "isScratchingOf d s" and "audioPlayerOf d s = Some p" and "duration (deckOf d s) \<noteq> 0"
  shows "audioPlayerOf d (onScratch x y s) =
           Some (p\<lparr>currentTime :=
             max 0 (min (el_duration p)
               (currentTime p
                 + deltaAngle (pointerAngle rect x y) (lastAngle (scratchStateOf d s))
                     * SCRATCH_SENSITIVITY / (2 * pi)))\<rparr>)"
proof (cases d)
  case A
  show ?thesis
    unfolding A audioPlayerOf.simps scratchStateOf.simps
    by (rule onScratch_active_A) (use assms in \<open>simp_all add: A\<close>)
next
  case B
  show ?thesis
    unfolding B audioPlayerOf.simps scratchStateOf.simps
    by (rule onScratch_active_B) (use assms in \<open>simp_all add: B\<close>)
qed

lemma onScratch_decks:
  "deckA (onScratch x y s) = deckA s" "deckB (onScratch x y s) = deckB s"
  by (simp_all add: onScratch_def processDeck_decks ensureAudioContext_frame)

lemma scratchAtRight_facts:
  "active (scratchStateOf A scratchAtRight)"
  "platterElement (scratchStateOf A scratchAtRight) = Some platter"
  "isScratchingOf A scratchAtRight"
  "audioPlayerOf A scratchAtRight = Some audioElement"
  "duration (deckOf A scratchAtRight) \<noteq> 0"
  "lastAngle (scratchStateOf A scratchAtRight) = 0"
  by (simp_all add: scratch_eval)

lemma scratchAtLeft_facts:
  "active (scratchStateA scratchAtLeft)"
  "platterElement (scratchStateA scratchAtLeft) = Some platter"
  "isScratchingA scratchAtLeft"
  "audioPlayerA scratchAtLeft = Some audioElement"
  "duration (deckA scratchAtLeft) \<noteq> 0"
  "lastAngle (scratchStateA scratchAtLeft) = pi"
  by (simp_all add: scratch_eval)

lemma platter_angles:
  "pointerAngle platter 100 150 = pi / 2"
  "pointerAngle platter 150 100 = 0"
  by (simp_all add: pointerAngle_def atan2_def platter_def Let_def)

text \<open>
  Claim C6, as amended. A move event while a deck is being scratched (its scratch state
  active with a platter, its signal set, its audio element present, its duration not 0;
  the last angle between \<open>- pi\<close> and \<open>pi\<close>, as it is in every state the
  mixer reaches). The angular delta from
  the last angle is brought back by one turn into the closed interval from \<open>- pi\<close> to
  \<open>pi\<close>; the audio element's current time is advanced by
  \<open>delta * 2.5 / (2 * pi)\<close> seconds and clamped between 0 and the element's duration,
  so that a delta of \<open>pi / 2\<close> is an offset of \<open>2.5 / 4\<close> seconds forward; and the
  state of neither deck is written.
\<close>

theorem onScratch_moves_transport:
  assumes "active (scratchStateOf d s)" and "platterElement (scratchStateOf d s) = Some rect"
    and "isScratchingOf d s" and "audioPlayerOf d s = Some p" and "duration (deckOf d s) \<noteq> 0"
    and "- pi \<le> lastAngle (scratchStateOf d s)" and "lastAngle (scratchStateOf d s) \<le> pi"
  shows "\<exists>delta.
          delta = deltaAngle (pointerAngle rect x y) (lastAngle (scratchStateOf d s))
        \<and> - pi \<le> delta \<and> delta \<le> pi
        \<and> (delta = pointerAngle rect x y - lastAngle (scratchStateOf d s)
           \<or> delta = pointerAngle rect x y - lastAngle (scratchStateOf d s) - 2 * pi
           \<or> delta = pointerAngle rect x y - lastAngle (scratchStateOf d s) + 2 * pi)
        \<and> audioPlayerOf d (onScratch x y s) =
            Some (p\<lparr>currentTime :=
                     max 0 (min (el_duration p) (currentTime p + delta * 2.5 / (2 * pi)))\<rparr>)
        \<and> (delta = pi / 2 \<longrightarrow>
             audioPlayerOf d (onScratch x y s) =
               Some (p\<lparr>currentTime := max 0 (min (el_duration p) (currentTime p + 2.5 / 4))\<rparr>))
        \<and> (0 \<le> el_duration p \<longrightarrow>
             (\<exists>q. audioPlayerOf d (onScratch x y s) = Some q
                  \<and> 0 \<le> currentTime q \<and> currentTime q \<le> el_duration p))
        \<and> deckA (onScratch x y s) = deckA s \<and> deckB (onScratch x y s) = deckB s"
proof -
  define delta where "delta = deltaAngle (pointerAngle rect x y) (lastAngle (scratchStateOf d s))"
  have r: "- pi < pointerAngle rect x y" "pointerAngle rect x y \<le> pi"
    using pointerAngle_range [of rect x y] by simp_all
  have 1: "- pi \<le> delta" and 2: "delta \<le> pi"
    and 3: "delta = pointerAngle rect x y - lastAngle (scratchStateOf d s)
           \<or> delta = pointerAngle rect x y - lastAngle (scratchStateOf d s) - 2 * pi
           \<or> delta = pointerAngle rect x y - lastAngle (scratchStateOf d s) + 2 * pi"
    unfolding delta_def using deltaAngle_range [OF r assms(6,7)] by blast+
  have 4: "audioPlayerOf d (onScratch x y s) =
            Some (p\<lparr>currentTime :=
                     max 0 (min (el_duration p) (currentTime p + delta * 2.5 / (2 * pi)))\<rparr>)"
    using onScratch_active [OF assms(1-5), of x y]
    by (simp add: delta_def SCRATCH_SENSITIVITY_def)
  have 5: "delta = pi / 2 \<longrightarrow>
             audioPlayerOf d (onScratch x y s) =
               Some (p\<lparr>currentTime := max 0 (min (el_duration p) (currentTime p + 2.5 / 4))\<rparr>)"
  proof
    assume e: "delta = pi / 2"
    have "pi / 2 * 2.5 / (2 * pi) = (2.5 / 4 :: real)" by simp
    then show "audioPlayerOf d (onScratch x y s) =
               Some (p\<lparr>currentTime := max 0 (min (el_duration p) (currentTime p + 2.5 / 4))\<rparr>)"
      using 4 unfolding e by simp
  qed
  have 6: "0 \<le> el_duration p \<longrightarrow>
             (\<exists>q. audioPlayerOf d (onScratch x y s) = Some q
                  \<and> 0 \<le> currentTime q \<and> currentTime q \<le> el_duration p)"
    unfolding 4 by simp
  have 7: "deckA (onScratch x y s) = deckA s" "deckB (onScratch x y s) = deckB s"
    by (rule onScratch_decks)+
  from 1 2 3 4 5 6 7 delta_def show ?thesis by blast
qed

theorem onScratch_moves_transport_witness:
  "active (scratchStateOf A scratchAtRight)
   \<and> platterElement (scratchStateOf A scratchAtRight) = Some platter
   \<and> isScratchingOf A scratchAtRight
   \<and> audioPlayerOf A scratchAtRight = Some audioElement
   \<and> duration (deckOf A scratchAtRight) \<noteq> 0
   \<and> - pi \<le> lastAngle (scratchStateOf A scratchAtRight)
   \<and> lastAngle (scratchStateOf A scratchAtRight) \<le> pi
   \<and> currentTime audioElement = 5
   \<and> audioPlayerOf A (onScratch 100 150 scratchAtRight) = Some (audioElement\<lparr>currentTime := 5.625\<rparr>)"
proof -
  note f = scratchAtRight_facts
  have l1: "- pi \<le> lastAngle (scratchStateOf A scratchAtRight)"
    and l2: "lastAngle (scratchStateOf A scratchAtRight) \<le> pi"
    unfolding f(6) using pi_gt_zero by simp_all
  have d: "deltaAngle (pointerAngle platter 100 150) (lastAngle (scratchStateOf A scratchAtRight)) = pi / 2"
    unfolding f(6) platter_angles using pi_gt_zero by (simp add: deltaAngle_def Let_def)
  from onScratch_moves_transport [OF f(1-5) l1 l2, of 100 150] d
  have "audioPlayerOf A (onScratch 100 150 scratchAtRight) =
          Some (audioElement\<lparr>currentTime :=
                  max 0 (min (el_duration audioElement) (currentTime audioElement + 2.5 / 4))\<rparr>)"
    by blast
  then have m: "audioPlayerOf A (onScratch 100 150 scratchAtRight) = Some (audioElement\<lparr>currentTime := 5.625\<rparr>)"
    by (simp add: audioElement_def)
  have c: "currentTime audioElement = 5" by (simp add: audioElement_def)
  from f(1-5) l1 l2 c m show ?thesis by blast
qed

text \<open>
  Claim C6 as stated fails at the lower end of the interval. The scratch on deck A has
  started exactly to the left of the centre, where the angle is \<open>pi\<close>, and the
  pointer is now exactly to the right of it, where the angle is 0. The delta is
  \<open>- pi\<close>, which neither test of the wrap-around changes: it is not above
  \<open>- pi\<close>, and the element goes back 1.25 seconds, from 5 to 3.75.
\<close>

theorem onScratch_half_turn_counterexample:
  "active (scratchStateA scratchAtLeft) \<and> isScratchingA scratchAtLeft
   \<and> duration (deckA scratchAtLeft) \<noteq> 0
   \<and> audioPlayerA scratchAtLeft = Some audioElement \<and> currentTime audioElement = 5
   \<and> lastAngle (scratchStateA scratchAtLeft) = pi
   \<and> pointerAngle platter 150 100 = 0
   \<and> deltaAngle (pointerAngle platter 150 100) (lastAngle (scratchStateA scratchAtLeft)) = - pi
   \<and> \<not> (- pi < deltaAngle (pointerAngle platter 150 100) (lastAngle (scratchStateA scratchAtLeft)))
   \<and> audioPlayerA (onScratch 150 100 scratchAtLeft) = Some (audioElement\<lparr>currentTime := 3.75\<rparr>)"
proof -
  note f = scratchAtLeft_facts
  have d: "deltaAngle (pointerAngle platter 150 100) (lastAngle (scratchStateA scratchAtLeft)) = - pi"
    unfolding f(6) platter_angles using pi_gt_zero by (simp add: deltaAngle_def Let_def)
  have t: "- pi * SCRATCH_SENSITIVITY / (2 * pi) = - 1.25"
    by (simp add: SCRATCH_SENSITIVITY_def)
  have "audioPlayerA (onScratch 150 100 scratchAtLeft) =
          Some (audioElement\<lparr>currentTime :=
             max 0 (min (el_duration audioElement)
               (currentTime audioElement
                 + deltaAngle (pointerAngle platter 150 100) (lastAngle (scratchStateA scratchAtLeft))
                     * SCRATCH_SENSITIVITY / (2 * pi)))\<rparr>)"
    by (rule onScratch_active_A [OF f(1-5)])
  then have m: "audioPlayerA (onScratch 150 100 scratchAtLeft) = Some (audioElement\<lparr>currentTime := 3.75\<rparr>)"
    unfolding d t by (simp add: audioElement_def)
  have c: "currentTime audioElement = 5" by (simp add: audioElement_def)
  from f d m c platter_angles(2) show ?thesis by simp
qed

end
